theory Spec2Isabelle
  imports Main "HOL-Library.Word" "HOL-Library.AList"
begin

section \<open>Data model of gl\_shader\_manager.cpp\<close>

type_synonym u8 = "8 word"
type_synonym u32 = "32 word"
type_synonym u64 = "64 word"
type_synonym size_t = "64 word"
type_synonym GLuint = "32 word"
type_synonym GLint = "32 word"
type_synonym GLenum = "32 word"

text \<open>\<open>Pica::Regs\<close> is read through its \<open>reg_array\<close>; \<open>ProgramCode\<close> is a vector of words.\<close>

type_synonym Regs = "u32 list"
type_synonym ProgramCode = "u32 list"

text \<open>\<open>ShaderDecompiler::ProgramResult\<close>: the generated source text. A source text holds no NUL
  character, so \<open>c_str()\<close> passes all of it.\<close>

record ProgramResult =
  code :: string

text \<open>\<open>Pica::Shader::ShaderSetup\<close>, the two buffers this file reads and writes.\<close>

record ShaderSetup =
  setup_program_code :: "u32 list"
  setup_swizzle_data :: "u32 list"

text \<open>\<open>ProgramType\<close>: the stage kind stored with a raw entry. This file handles \<open>VS\<close> and
  \<open>FS\<close>; every other value takes the final \<open>else\<close> branch.\<close>

datatype ProgramType = VS | GS | FS

record ShaderDiskCacheRaw =
  unique_identifier :: u64
  program_type :: ProgramType
  config :: Regs
  program_code :: ProgramCode

record ShaderDiskCacheDecompiled =
  result :: ProgramResult
  sanitize_mul :: bool

record ShaderDiskCacheDump =
  binary_format :: GLenum
  binary :: "u8 list"

datatype LoadCallbackStage = Decompile | Build

datatype UniformBindings = UB_Common | UB_VS

datatype TextureUnit =
    PicaTexture nat | TextureCube | TextureNormalMap
  | TextureBufferLUT_LF | TextureBufferLUT_RG | TextureBufferLUT_RGBA

datatype ImageUnit =
    ShadowBuffer | ShadowTexturePX | ShadowTextureNX | ShadowTexturePY
  | ShadowTextureNY | ShadowTexturePZ | ShadowTextureNZ

text \<open>The calls this file makes on its external collaborators (the graphics platform, the
  source generators, the disk cache, the progress callback), in the order they are made.
  Queries that change nothing (\<open>glGet...\<close>) are not recorded; a call that creates an object
  records the handle it returned.\<close>

datatype event =
    E_glUniformBlockBinding GLuint GLuint GLuint
  | E_glUniform1i GLint GLint
  | E_Apply GLuint
  | E_glCreateProgram GLuint
  | E_glProgramParameteri GLuint
  | E_glProgramBinary GLuint GLenum "u8 list"
  | E_OGLShader_Create string GLenum GLuint
  | E_OGLProgram_Create bool "GLuint list" GLuint
  | E_CodeGenerator "ProgramResult option"
  | E_SaveRaw ShaderDiskCacheRaw
  | E_SaveDecompiled u64 ProgramResult bool
  | E_SaveDump u64 GLuint
  | E_InvalidateAll
  | E_InvalidatePrecompiled
  | E_SaveVirtualPrecompiledFile
  | E_callback LoadCallbackStage nat nat

text \<open>Modelled from the spec: the macro \<open>ASSERT_MSG\<close> of \<open>common/assert.h\<close> is not in this
  file; a uniform layout mismatch on bind is a "fatal assertion, not recoverable", so a failed
  assertion ends the call with \<open>AssertFailed\<close>.
  The other failures are those of the C++ library: an exception of \<open>vector::at\<close>, and the reads
  the standard leaves undefined (dereferencing an empty optional, an end iterator or a pointer to
  no stage, reading a vector or span past its end).\<close>

datatype error = AssertFailed | OutOfRange | NulloptDeref | EndIteratorDeref
  | InvalidPointer | ReadPastEnd

text \<open>The state outside this file: the calls made so far, the shader program of the current
  \<open>OpenGLState\<close>, and how often \<open>stop_loading\<close> has been read.\<close>

record world =
  trace :: "event list"
  cur_shader_program :: GLuint
  polls :: nat

text \<open>The graphics platform and the classes of \<open>gl_resource_manager.h\<close>, whose code is not
  in this file, taken as parameters. Each answer may depend on the calls made so far.
  \<open>OGLShader_Create\<close> and \<open>OGLProgram_Create\<close> give the handle that a fresh object holds
  after \<open>Create\<close>; handle 0 is the sentinel for a build that failed. The destructors of these
  classes, which release the handle of a temporary, are not part of the model.\<close>

record platform =
  glGetUniformBlockIndex :: "event list \<Rightarrow> GLuint \<Rightarrow> string \<Rightarrow> GLuint"
  GL_UNIFORM_BLOCK_DATA_SIZE :: "event list \<Rightarrow> GLuint \<Rightarrow> GLuint \<Rightarrow> GLint"
  glGetUniformLocation :: "event list \<Rightarrow> GLuint \<Rightarrow> string \<Rightarrow> GLint"
  glCreateProgram :: "event list \<Rightarrow> GLuint"
  GL_LINK_STATUS :: "event list \<Rightarrow> GLuint \<Rightarrow> bool"
  GL_PROGRAM_BINARY_FORMATS :: "event list \<Rightarrow> GLint list"
  OGLShader_Create :: "event list \<Rightarrow> string \<Rightarrow> GLenum \<Rightarrow> GLuint"
  OGLProgram_Create :: "event list \<Rightarrow> bool \<Rightarrow> GLuint list \<Rightarrow> GLuint"

text \<open>Constants and functions of headers that are not in this file, the global
  \<open>g_hw_shader_accurate_mul\<close>, and the values that the reads of the flag \<open>stop_loading\<close> give.\<close>

record constants =
  sizeof_UniformData :: size_t
  sizeof_VSUniformData :: size_t
  binding_slot :: "UniformBindings \<Rightarrow> GLuint"
  texture_unit_id :: "TextureUnit \<Rightarrow> GLint"
  image_unit :: "ImageUnit \<Rightarrow> GLuint"
  MAX_PROGRAM_CODE_LENGTH :: nat
  MAX_SWIZZLE_DATA_LENGTH :: nat
  ComputeHash64 :: "u32 list \<Rightarrow> u64"
  HashCombine :: "size_t \<Rightarrow> u64 \<Rightarrow> size_t"
  g_hw_shader_accurate_mul :: bool
  stop_loading :: "nat \<Rightarrow> bool"

definition GL_INVALID_INDEX :: GLuint where
  "GL_INVALID_INDEX = 0xFFFFFFFF"

definition GL_FRAGMENT_SHADER :: GLenum where
  "GL_FRAGMENT_SHADER = 0x8B30"

definition GL_VERTEX_SHADER :: GLenum where
  "GL_VERTEX_SHADER = 0x8B31"

definition GL_GEOMETRY_SHADER :: GLenum where
  "GL_GEOMETRY_SHADER = 0x8DD9"

definition emit :: "event \<Rightarrow> world \<Rightarrow> world" where
  "emit e w = w\<lparr>trace := trace w @ [e]\<rparr>"

section \<open>Static helpers\<close>

definition GetUniqueIdentifier :: "constants \<Rightarrow> Regs \<Rightarrow> ProgramCode \<Rightarrow> u64" where
  "GetUniqueIdentifier K regs pcode =
     (let hash = 0;
          regs_uid = ComputeHash64 K regs;
          hash = HashCombine K hash regs_uid
      in if length pcode > 0
         then (let code_uid = ComputeHash64 K pcode in HashCombine K hash code_uid)
         else hash)"

text \<open>\<open>OGLProgram\<close> is modelled by the handle it owns; \<open>return {}\<close> is handle 0.\<close>

definition GeneratePrecompiledProgram ::
  "platform \<Rightarrow> ShaderDiskCacheDump \<Rightarrow> GLenum set \<Rightarrow> bool \<Rightarrow> world \<Rightarrow> GLuint \<times> world" where
  "GeneratePrecompiledProgram P dump supported_formats separable w =
     (if binary_format dump \<notin> supported_formats then (0, w)
      else
        let handle = glCreateProgram P (trace w);
            w1 = emit (E_glCreateProgram handle) w;
            w2 = (if separable then emit (E_glProgramParameteri handle) w1 else w1);
            w3 = emit (E_glProgramBinary handle (binary_format dump) (binary dump)) w2
        in if \<not> GL_LINK_STATUS P (trace w3) handle then (0, w3) else (handle, w3))"

definition GetSupportedFormats :: "platform \<Rightarrow> world \<Rightarrow> GLenum set" where
  "GetSupportedFormats P w = set (GL_PROGRAM_BINARY_FORMATS P (trace w))"

definition SetShaderUniformBlockBinding ::
  "platform \<Rightarrow> constants \<Rightarrow> GLuint \<Rightarrow> string \<Rightarrow> UniformBindings \<Rightarrow> size_t \<Rightarrow> world
     \<Rightarrow> error + world" where
  "SetShaderUniformBlockBinding P K shader name binding expected_size w =
     (let ub_index = glGetUniformBlockIndex P (trace w) shader name
      in if ub_index = GL_INVALID_INDEX then Inr w
         else
           let ub_size = GL_UNIFORM_BLOCK_DATA_SIZE P (trace w) shader ub_index
           in if (scast ub_size :: size_t) \<noteq> expected_size then Inl AssertFailed
              else Inr (emit (E_glUniformBlockBinding shader ub_index (binding_slot K binding)) w))"

definition SetShaderUniformBlockBindings ::
  "platform \<Rightarrow> constants \<Rightarrow> GLuint \<Rightarrow> world \<Rightarrow> error + world" where
  "SetShaderUniformBlockBindings P K shader w =
     (case SetShaderUniformBlockBinding P K shader ''shader_data'' UB_Common
             (sizeof_UniformData K) w of
        Inl e \<Rightarrow> Inl e
      | Inr w1 \<Rightarrow>
          SetShaderUniformBlockBinding P K shader ''vs_config'' UB_VS (sizeof_VSUniformData K) w1)"

definition SetShaderSamplerBinding ::
  "platform \<Rightarrow> constants \<Rightarrow> GLuint \<Rightarrow> string \<Rightarrow> TextureUnit \<Rightarrow> world \<Rightarrow> world" where
  "SetShaderSamplerBinding P K shader name binding w =
     (let uniform_tex = glGetUniformLocation P (trace w) shader name
      in if uniform_tex \<noteq> - 1 then emit (E_glUniform1i uniform_tex (texture_unit_id K binding)) w
         else w)"

definition SetShaderImageBinding ::
  "platform \<Rightarrow> GLuint \<Rightarrow> string \<Rightarrow> GLuint \<Rightarrow> world \<Rightarrow> world" where
  "SetShaderImageBinding P shader name binding w =
     (let uniform_tex = glGetUniformLocation P (trace w) shader name
      in if uniform_tex \<noteq> - 1 then emit (E_glUniform1i uniform_tex binding) w
         else w)"

definition Apply :: "GLuint \<Rightarrow> world \<Rightarrow> world" where
  "Apply program w = emit (E_Apply program) (w\<lparr>cur_shader_program := program\<rparr>)"

definition sampler_names :: "(string \<times> TextureUnit) list" where
  "sampler_names =
     [(''tex0'', PicaTexture 0), (''tex1'', PicaTexture 1), (''tex2'', PicaTexture 2),
      (''tex_cube'', TextureCube), (''tex_normal'', TextureNormalMap),
      (''texture_buffer_lut_lf'', TextureBufferLUT_LF),
      (''texture_buffer_lut_rg'', TextureBufferLUT_RG),
      (''texture_buffer_lut_rgba'', TextureBufferLUT_RGBA)]"

definition image_names :: "(string \<times> ImageUnit) list" where
  "image_names =
     [(''shadow_buffer'', ShadowBuffer),
      (''shadow_texture_px'', ShadowTexturePX), (''shadow_texture_nx'', ShadowTextureNX),
      (''shadow_texture_py'', ShadowTexturePY), (''shadow_texture_ny'', ShadowTextureNY),
      (''shadow_texture_pz'', ShadowTexturePZ), (''shadow_texture_nz'', ShadowTextureNZ)]"

definition SetShaderSamplerBindings :: "platform \<Rightarrow> constants \<Rightarrow> GLuint \<Rightarrow> world \<Rightarrow> world" where
  "SetShaderSamplerBindings P K shader w =
     (let old_program = cur_shader_program w;
          w1 = Apply shader w;
          w2 = fold (\<lambda>(name, unit). SetShaderSamplerBinding P K shader name unit) sampler_names w1;
          w3 = fold (\<lambda>(name, unit). SetShaderImageBinding P shader name (image_unit K unit))
                 image_names w2
      in Apply old_program w3)"

section \<open>OGLShaderStage\<close>

text \<open>The variant of \<open>OGLShaderStage\<close>: index 0 holds an \<open>OGLShader\<close>, index 1 an
  \<open>OGLProgram\<close>; each is modelled by its handle.\<close>

datatype OGLShaderStage = StageShader GLuint | StageProgram GLuint

definition OGLShaderStage_new :: "bool \<Rightarrow> OGLShaderStage" where
  "OGLShaderStage_new separable = (if separable then StageProgram 0 else StageShader 0)"

definition Stage_Create ::
  "platform \<Rightarrow> constants \<Rightarrow> OGLShaderStage \<Rightarrow> string \<Rightarrow> GLenum \<Rightarrow> world
     \<Rightarrow> error + (OGLShaderStage \<times> world)" where
  "Stage_Create P K stage source type w =
     (case stage of
        StageShader _ \<Rightarrow>
          (let handle = OGLShader_Create P (trace w) source type
           in Inr (StageShader handle, emit (E_OGLShader_Create source type handle) w))
      | StageProgram _ \<Rightarrow>
          (let shader = OGLShader_Create P (trace w) source type;
               w1 = emit (E_OGLShader_Create source type shader) w;
               program = OGLProgram_Create P (trace w1) True [shader];
               w2 = emit (E_OGLProgram_Create True [shader] program) w1
           in case SetShaderUniformBlockBindings P K program w2 of
                Inl e \<Rightarrow> Inl e
              | Inr w3 \<Rightarrow>
                  Inr (StageProgram program,
                       if type = GL_FRAGMENT_SHADER then SetShaderSamplerBindings P K program w3
                       else w3)))"

fun GetHandle :: "OGLShaderStage \<Rightarrow> GLuint" where
  "GetHandle (StageShader handle) = handle"
| "GetHandle (StageProgram handle) = handle"

definition Stage_Inject ::
  "platform \<Rightarrow> constants \<Rightarrow> GLuint \<Rightarrow> world \<Rightarrow> error + (OGLShaderStage \<times> world)" where
  "Stage_Inject P K program w =
     (case SetShaderUniformBlockBindings P K program w of
        Inl e \<Rightarrow> Inl e
      | Inr w1 \<Rightarrow> Inr (StageProgram program, SetShaderSamplerBindings P K program w1))"

section \<open>ShaderCache\<close>

text \<open>An \<open>unordered_map\<close> is modelled by the list of its nodes. \<open>emplace\<close> adds a node only
  when the key has none, and gives the stored value and whether it inserted.\<close>

definition emplace :: "'k \<Rightarrow> 'v \<Rightarrow> ('k \<times> 'v) list \<Rightarrow> ('k \<times> 'v) list \<times> 'v \<times> bool" where
  "emplace k v al =
     (case map_of al k of
        None \<Rightarrow> (al @ [(k, v)], v, True)
      | Some v' \<Rightarrow> (al, v', False))"

record 'k ShaderCache =
  sc_separable :: bool
  shaders :: "('k \<times> OGLShaderStage) list"

definition ShaderCache_new :: "bool \<Rightarrow> 'k ShaderCache" where
  "ShaderCache_new separable = \<lparr>sc_separable = separable, shaders = []\<rparr>"

definition ShaderCache_Get ::
  "platform \<Rightarrow> constants \<Rightarrow> ('k \<Rightarrow> bool \<Rightarrow> ProgramResult) \<Rightarrow> GLenum \<Rightarrow> 'k
     \<Rightarrow> 'k ShaderCache \<times> world
     \<Rightarrow> error + ((GLuint \<times> ProgramResult option) \<times> 'k ShaderCache \<times> world)" where
  "ShaderCache_Get P K CodeGenerator ShaderType cfg = (\<lambda>(c, w).
     (case emplace cfg (OGLShaderStage_new (sc_separable c)) (shaders c) of
        (shaders1, cached_shader, new_shader) \<Rightarrow>
          if new_shader then
            (let res = CodeGenerator cfg (sc_separable c);
                 w1 = emit (E_CodeGenerator (Some res)) w
             in case Stage_Create P K cached_shader (code res) ShaderType w1 of
                  Inl e \<Rightarrow> Inl e
                | Inr (created, w2) \<Rightarrow>
                    Inr ((GetHandle created, Some res),
                         c\<lparr>shaders := AList.update cfg created shaders1\<rparr>, w2))
          else Inr ((GetHandle cached_shader, None), c\<lparr>shaders := shaders1\<rparr>, w)))"

definition ShaderCache_Inject_stage ::
  "'k \<Rightarrow> OGLShaderStage \<Rightarrow> 'k ShaderCache \<Rightarrow> 'k ShaderCache" where
  "ShaderCache_Inject_stage key stage c =
     (case emplace key stage (shaders c) of (shaders1, _, _) \<Rightarrow> c\<lparr>shaders := shaders1\<rparr>)"

definition ShaderCache_Inject ::
  "platform \<Rightarrow> constants \<Rightarrow> 'k \<Rightarrow> GLuint \<Rightarrow> 'k ShaderCache \<times> world
     \<Rightarrow> error + ('k ShaderCache \<times> world)" where
  "ShaderCache_Inject P K key program = (\<lambda>(c, w).
     (case Stage_Inject P K program w of
        Inl e \<Rightarrow> Inl e
      | Inr (stage, w1) \<Rightarrow> Inr (ShaderCache_Inject_stage key stage c, w1)))"

section \<open>ShaderDoubleCache\<close>

text \<open>\<open>shader_map\<close> holds pointers into \<open>shader_cache\<close>. The nodes of an \<open>unordered_map\<close>
  never move and this file never erases one, so a pointer to a stage is modelled by the source
  text that keys its node; \<open>None\<close> is \<open>nullptr\<close>.\<close>

record 'k ShaderDoubleCache =
  dc_separable :: bool
  shader_map :: "('k \<times> string option) list"
  shader_cache :: "(string \<times> OGLShaderStage) list"

definition ShaderDoubleCache_new :: "bool \<Rightarrow> 'k ShaderDoubleCache" where
  "ShaderDoubleCache_new separable =
     \<lparr>dc_separable = separable, shader_map = [], shader_cache = []\<rparr>"

definition ShaderDoubleCache_Get ::
  "platform \<Rightarrow> constants \<Rightarrow> (ShaderSetup \<Rightarrow> 'k \<Rightarrow> bool \<Rightarrow> ProgramResult option) \<Rightarrow> GLenum
     \<Rightarrow> 'k \<Rightarrow> ShaderSetup \<Rightarrow> 'k ShaderDoubleCache \<times> world
     \<Rightarrow> error + ((GLuint \<times> ProgramResult option) \<times> 'k ShaderDoubleCache \<times> world)" where
  "ShaderDoubleCache_Get P K CodeGenerator ShaderType key setup = (\<lambda>(c, w).
     (case map_of (shader_map c) key of
        None \<Rightarrow>
          (let program_opt = CodeGenerator setup key (dc_separable c);
               w1 = emit (E_CodeGenerator program_opt) w
           in case program_opt of
                None \<Rightarrow> Inr ((0, None), c\<lparr>shader_map := AList.update key None (shader_map c)\<rparr>, w1)
              | Some generated \<Rightarrow>
                  (let program = code generated
                   in case emplace program (OGLShaderStage_new (dc_separable c)) (shader_cache c) of
                        (cache1, cached_shader, new_shader) \<Rightarrow>
                          if new_shader then
                            (case Stage_Create P K cached_shader program ShaderType w1 of
                               Inl e \<Rightarrow> Inl e
                             | Inr (created, w2) \<Rightarrow>
                                 Inr ((GetHandle created, Some \<lparr>code = program\<rparr>),
                                      c\<lparr>shader_cache := AList.update program created cache1,
                                        shader_map :=
                                          AList.update key (Some program) (shader_map c)\<rparr>,
                                      w2))
                          else
                            Inr ((GetHandle cached_shader, None),
                                 c\<lparr>shader_cache := cache1,
                                   shader_map := AList.update key (Some program) (shader_map c)\<rparr>,
                                 w1)))
      | Some None \<Rightarrow> Inr ((0, None), c, w)
      | Some (Some p) \<Rightarrow>
          (case map_of (shader_cache c) p of
             None \<Rightarrow> Inl InvalidPointer
           | Some stage \<Rightarrow> Inr ((GetHandle stage, None), c, w))))"

definition ShaderDoubleCache_Inject_stage ::
  "'k \<Rightarrow> string \<Rightarrow> OGLShaderStage \<Rightarrow> 'k ShaderDoubleCache \<Rightarrow> 'k ShaderDoubleCache" where
  "ShaderDoubleCache_Inject_stage key decomp stage c =
     (case emplace decomp stage (shader_cache c) of
        (cache1, _, _) \<Rightarrow>
          c\<lparr>shader_cache := cache1,
            shader_map := AList.update key (Some decomp) (shader_map c)\<rparr>)"

definition ShaderDoubleCache_Inject ::
  "platform \<Rightarrow> constants \<Rightarrow> 'k \<Rightarrow> string \<Rightarrow> GLuint \<Rightarrow> 'k ShaderDoubleCache \<times> world
     \<Rightarrow> error + ('k ShaderDoubleCache \<times> world)" where
  "ShaderDoubleCache_Inject P K key decomp program = (\<lambda>(c, w).
     (case Stage_Inject P K program w of
        Inl e \<Rightarrow> Inl e
      | Inr (stage, w1) \<Rightarrow> Inr (ShaderDoubleCache_Inject_stage key decomp stage c, w1)))"

section \<open>ShaderProgramManager\<close>

record ShaderTuple =
  vs_hash :: size_t
  gs_hash :: size_t
  fs_hash :: size_t
  vs :: GLuint
  gs :: GLuint
  fs :: GLuint

text \<open>The members of \<open>Impl\<close> that the functions below read or write. The disk cache is an
  external collaborator: what it returns is an argument, what is stored in it is an event.\<close>

record ('vk, 'fk) Impl =
  separable :: bool
  current :: ShaderTuple
  programmable_vertex_shaders :: "'vk ShaderDoubleCache"
  fragment_shaders :: "'fk ShaderCache"
  program_cache :: "(u64 \<times> GLuint) list"

text \<open>The source generators and the config keys, whose code is not in this file.
  \<open>PicaVSConfig\<close> builds the key from \<open>regs.vs\<close> and the setup; \<open>BuildFromRegs\<close> is the call
  with one argument.\<close>

record ('vk, 'fk) generators =
  GenerateVertexShader :: "ShaderSetup \<Rightarrow> 'vk \<Rightarrow> bool \<Rightarrow> ProgramResult option"
  GenerateFragmentShader :: "'fk \<Rightarrow> bool \<Rightarrow> ProgramResult"
  PicaVSConfig :: "Regs \<Rightarrow> ShaderSetup \<Rightarrow> 'vk"
  PicaVSConfig_Hash :: "'vk \<Rightarrow> size_t"
  PicaVSConfig_sanitize_mul :: "'vk \<Rightarrow> bool"
  BuildFromRegs :: "Regs \<Rightarrow> 'fk"

definition BuildVSConfigFromRaw ::
  "constants \<Rightarrow> ('vk, 'fk) generators \<Rightarrow> ShaderDiskCacheRaw \<Rightarrow> error + ('vk \<times> ShaderSetup)" where
  "BuildVSConfigFromRaw K G raw =
     (if length (program_code raw) < MAX_PROGRAM_CODE_LENGTH K + MAX_SWIZZLE_DATA_LENGTH K
      then Inl ReadPastEnd
      else
        let pcode = take (MAX_PROGRAM_CODE_LENGTH K) (program_code raw);
            swizzle = take (MAX_SWIZZLE_DATA_LENGTH K)
                        (drop (MAX_PROGRAM_CODE_LENGTH K) (program_code raw));
            setup = \<lparr>setup_program_code = pcode, setup_swizzle_data = swizzle\<rparr>
        in Inr (PicaVSConfig G (config raw) setup, setup))"

definition UseProgrammableVertexShader ::
  "platform \<Rightarrow> constants \<Rightarrow> ('vk, 'fk) generators \<Rightarrow> Regs \<Rightarrow> ShaderSetup
     \<Rightarrow> ('vk, 'fk) Impl \<times> world \<Rightarrow> error + (bool \<times> ('vk, 'fk) Impl \<times> world)" where
  "UseProgrammableVertexShader P K G regs setup = (\<lambda>(I, w).
     (let cfg = PicaVSConfig G regs setup
      in case ShaderDoubleCache_Get P K (GenerateVertexShader G) GL_VERTEX_SHADER cfg setup
                (programmable_vertex_shaders I, w) of
           Inl e \<Rightarrow> Inl e
         | Inr ((handle, res), pvs, w1) \<Rightarrow>
             (let I1 = I\<lparr>programmable_vertex_shaders := pvs\<rparr>
              in if handle = 0 then Inr (False, I1, w1)
                 else
                   let I2 = I1\<lparr>current := (current I1)\<lparr>vs := handle,
                                                         vs_hash := PicaVSConfig_Hash G cfg\<rparr>\<rparr>
                   in case res of
                        None \<Rightarrow> Inr (True, I2, w1)
                      | Some r \<Rightarrow>
                          (let pcode = setup_program_code setup @ setup_swizzle_data setup;
                               uid = GetUniqueIdentifier K regs pcode;
                               raw = \<lparr>unique_identifier = uid, program_type = VS,
                                      config = regs, program_code = pcode\<rparr>;
                               w2 = emit (E_SaveRaw raw) w1;
                               w3 = emit (E_SaveDecompiled uid r (g_hw_shader_accurate_mul K)) w2
                           in Inr (True, I2, w3)))))"

section \<open>LoadDiskCache\<close>

text \<open>The locals of \<open>LoadDiskCache\<close> that its lambdas capture by reference, with the
  manager's state and the outside world.\<close>

record ('vk, 'fk) loader =
  impl :: "('vk, 'fk) Impl"
  lworld :: world
  dumps :: "(u64 \<times> ShaderDiskCacheDump) list"
  precompiled_cache_altered :: bool
  compilation_failed :: bool
  load_raws_index :: "nat list"
  load_all_raws :: bool
  built_shaders :: nat

text \<open>What a loop body or a phase does next: go on (\<open>Next\<close>), or leave the enclosing lambda or
  function (\<open>Return\<close>, for \<open>return\<close> and \<open>break\<close>).\<close>

datatype 'a flow = Next 'a | Return 'a

text \<open>One read of the atomic flag \<open>stop_loading\<close>, which another thread may set at any time:
  the \<open>n\<close>-th read gives \<open>stop_loading K n\<close>.\<close>

definition poll :: "constants \<Rightarrow> world \<Rightarrow> bool \<times> world" where
  "poll K w = (stop_loading K (polls w), w\<lparr>polls := Suc (polls w)\<rparr>)"

text \<open>\<open>if (callback) callback(stage, a, b)\<close>.\<close>

definition report :: "bool \<Rightarrow> LoadCallbackStage \<Rightarrow> nat \<Rightarrow> nat \<Rightarrow> world \<Rightarrow> world" where
  "report callback stage a b w = (if callback then emit (E_callback stage a b) w else w)"

text \<open>The body of the loop of \<open>LoadPrecompiledShader\<close> after its check of the two flags.\<close>

definition LoadPrecompiledShader_item ::
  "platform \<Rightarrow> constants \<Rightarrow> ('vk, 'fk) generators \<Rightarrow> bool \<Rightarrow> GLenum set
     \<Rightarrow> ShaderDiskCacheRaw list \<Rightarrow> (u64 \<times> ShaderDiskCacheDecompiled) list
     \<Rightarrow> (u64 \<times> ShaderDiskCacheDump) list \<Rightarrow> nat \<Rightarrow> ('vk, 'fk) loader
     \<Rightarrow> error + ('vk, 'fk) loader flow" where
  "LoadPrecompiledShader_item P K G callback supported_formats raw_cache decompiled_map dump_map
       i L =
     (if \<not> i < length raw_cache then Inl ReadPastEnd
      else
        let raw = raw_cache ! i;
            uid = unique_identifier raw;
            calculated_hash = GetUniqueIdentifier K (config raw) (program_code raw)
        in if uid \<noteq> calculated_hash
           then Inr (Return (L\<lparr>lworld := emit E_InvalidateAll (lworld L)\<rparr>))
           else
             case (map_of dump_map uid, map_of decompiled_map uid) of
               (Some dump, Some decomp) \<Rightarrow>
                 if program_type raw = VS \<and> sanitize_mul decomp \<noteq> g_hw_shader_accurate_mul K
                 then Inr (Next L)
                 else
                   (case GeneratePrecompiledProgram P dump supported_formats
                           (separable (impl L)) (lworld L) of
                      (shader, w1) \<Rightarrow>
                        if shader = 0
                        then Inr (Return (L\<lparr>compilation_failed := True, lworld := w1\<rparr>))
                        else if program_type raw = VS then
                          (case BuildVSConfigFromRaw K G raw of
                             Inl e \<Rightarrow> Inl e
                           | Inr (conf, setup) \<Rightarrow>
                               (case ShaderDoubleCache_Inject P K conf (code (result decomp)) shader
                                       (programmable_vertex_shaders (impl L), w1) of
                                  Inl e \<Rightarrow> Inl e
                                | Inr (pvs, w2) \<Rightarrow>
                                    Inr (Next (L\<lparr>impl := (impl L)\<lparr>programmable_vertex_shaders := pvs\<rparr>,
                                                  lworld := report callback Decompile i
                                                              (length raw_cache) w2\<rparr>))))
                        else if program_type raw = FS then
                          (case ShaderCache_Inject P K (BuildFromRegs G (config raw)) shader
                                  (fragment_shaders (impl L), w1) of
                             Inl e \<Rightarrow> Inl e
                           | Inr (fsc, w2) \<Rightarrow>
                               Inr (Next (L\<lparr>impl := (impl L)\<lparr>fragment_shaders := fsc\<rparr>,
                                             lworld := report callback Decompile i
                                                         (length raw_cache) w2\<rparr>)))
                        else Inr (Return (L\<lparr>compilation_failed := True, lworld := w1\<rparr>)))
             | _ \<Rightarrow>
                 Inr (Next (L\<lparr>load_raws_index := load_raws_index L @ [i],
                               lworld := report callback Decompile i (length raw_cache)
                                           (lworld L)\<rparr>)))"

text \<open>\<open>LoadPrecompiledShader(begin, end, ...)\<close> runs over the indices \<open>[begin..<end]\<close>.\<close>

fun LoadPrecompiledShader ::
  "platform \<Rightarrow> constants \<Rightarrow> ('vk, 'fk) generators \<Rightarrow> bool \<Rightarrow> GLenum set
     \<Rightarrow> ShaderDiskCacheRaw list \<Rightarrow> (u64 \<times> ShaderDiskCacheDecompiled) list
     \<Rightarrow> (u64 \<times> ShaderDiskCacheDump) list \<Rightarrow> nat list \<Rightarrow> ('vk, 'fk) loader
     \<Rightarrow> error + ('vk, 'fk) loader" where
  "LoadPrecompiledShader P K G callback supported_formats raw_cache decompiled_map dump_map [] L =
     Inr L"
| "LoadPrecompiledShader P K G callback supported_formats raw_cache decompiled_map dump_map
       (i # rest) L =
     (case poll K (lworld L) of
        (stop, w0) \<Rightarrow>
          if stop \<or> compilation_failed L then Inr (L\<lparr>lworld := w0\<rparr>)
          else
            (case LoadPrecompiledShader_item P K G callback supported_formats raw_cache
                    decompiled_map dump_map i (L\<lparr>lworld := w0\<rparr>) of
               Inl e \<Rightarrow> Inl e
             | Inr (Return L1) \<Rightarrow> Inr L1
             | Inr (Next L1) \<Rightarrow>
                 LoadPrecompiledShader P K G callback supported_formats raw_cache decompiled_map
                   dump_map rest L1))"

text \<open>\<open>LoadPrecompiledProgram\<close>: the loop over the nodes of \<open>dump_map\<close>, with its counter \<open>i\<close>,
  which \<open>++i\<close> advances inside \<open>if (callback)\<close>.\<close>

fun LoadPrecompiledProgram ::
  "platform \<Rightarrow> constants \<Rightarrow> bool \<Rightarrow> GLenum set \<Rightarrow> (u64 \<times> ShaderDiskCacheDecompiled) list
     \<Rightarrow> nat \<Rightarrow> (u64 \<times> ShaderDiskCacheDump) list \<Rightarrow> nat \<Rightarrow> ('vk, 'fk) loader
     \<Rightarrow> error + ('vk, 'fk) loader" where
  "LoadPrecompiledProgram P K callback supported_formats decompiled_map dump_map_size [] i L =
     Inr L"
| "LoadPrecompiledProgram P K callback supported_formats decompiled_map dump_map_size
       (dump # rest) i L =
     (case poll K (lworld L) of
        (stop, w0) \<Rightarrow>
          if stop then Inr (L\<lparr>lworld := w0\<rparr>)
          else
            (case map_of decompiled_map (fst dump) of
               None \<Rightarrow> Inl EndIteratorDeref
             | Some decomp \<Rightarrow>
                 if sanitize_mul decomp \<noteq> g_hw_shader_accurate_mul K
                 then LoadPrecompiledProgram P K callback supported_formats decompiled_map
                        dump_map_size rest i (L\<lparr>lworld := w0\<rparr>)
                 else
                   (case GeneratePrecompiledProgram P (snd dump) supported_formats
                           (separable (impl L)) w0 of
                      (shader, w1) \<Rightarrow>
                        if shader \<noteq> 0 then
                          (case SetShaderUniformBlockBindings P K shader w1 of
                             Inl e \<Rightarrow> Inl e
                           | Inr w2 \<Rightarrow>
                               LoadPrecompiledProgram P K callback supported_formats decompiled_map
                                 dump_map_size rest (if callback then i + 1 else i)
                                 (L\<lparr>impl := (impl L)\<lparr>program_cache :=
                                        fst (emplace (fst dump) shader (program_cache (impl L)))\<rparr>,
                                     lworld := report callback Decompile (i + 1) dump_map_size
                                                 (SetShaderSamplerBindings P K shader w2)\<rparr>))
                        else Inr (L\<lparr>compilation_failed := True, lworld := w1\<rparr>))))"

text \<open>Lines 672 to 689 of \<open>LoadRawSepareble\<close>, shared by its two stage kinds: the check of the
  handle, the two records added to the precompiled store, the progress callback.\<close>

definition LoadRawSepareble_store ::
  "bool \<Rightarrow> ShaderDiskCacheRaw \<Rightarrow> nat \<Rightarrow> GLuint \<Rightarrow> ProgramResult option \<Rightarrow> bool
     \<Rightarrow> ('vk, 'fk) loader \<Rightarrow> error + ('vk, 'fk) loader flow" where
  "LoadRawSepareble_store callback raw load_raws_size handle res sanitize L =
     (if handle = 0 then
        (if length (program_code raw) < 2 then Inl OutOfRange
         else Inr (Return (L\<lparr>compilation_failed := True\<rparr>)))
      else
        let L1 = (case res of
                    None \<Rightarrow> L
                  | Some r \<Rightarrow>
                      L\<lparr>lworld := emit (E_SaveDump (unique_identifier raw) handle)
                                    (emit (E_SaveDecompiled (unique_identifier raw) r sanitize)
                                       (lworld L)),
                        precompiled_cache_altered := True\<rparr>)
        in Inr (Next (if callback
                      then L1\<lparr>built_shaders := built_shaders L1 + 1,
                              lworld := emit (E_callback Build (built_shaders L1 + 1) load_raws_size)
                                          (lworld L1)\<rparr>
                      else L1)))"

text \<open>The body of the loop of \<open>LoadRawSepareble\<close> after its check of the two flags.\<close>

definition LoadRawSepareble_item ::
  "platform \<Rightarrow> constants \<Rightarrow> ('vk, 'fk) generators \<Rightarrow> bool \<Rightarrow> ShaderDiskCacheRaw list \<Rightarrow> nat
     \<Rightarrow> nat \<Rightarrow> ('vk, 'fk) loader \<Rightarrow> error + ('vk, 'fk) loader flow" where
  "LoadRawSepareble_item P K G callback raws load_raws_size i L =
     (if \<not> load_all_raws L \<and> \<not> i < length (load_raws_index L) then Inl ReadPastEnd
      else
        let raws_index = (if load_all_raws L then i else load_raws_index L ! i)
        in if \<not> raws_index < length raws then Inl ReadPastEnd
           else
             let raw = raws ! raws_index
             in if program_type raw = VS then
                  (case BuildVSConfigFromRaw K G raw of
                     Inl e \<Rightarrow> Inl e
                   | Inr (conf, setup) \<Rightarrow>
                       (let res = GenerateVertexShader G setup conf (separable (impl L));
                            w1 = emit (E_CodeGenerator res) (lworld L)
                        in case res of
                             None \<Rightarrow> Inl NulloptDeref
                           | Some r \<Rightarrow>
                               (case Stage_Create P K (OGLShaderStage_new (separable (impl L)))
                                       (code r) GL_VERTEX_SHADER w1 of
                                  Inl e \<Rightarrow> Inl e
                                | Inr (stage, w2) \<Rightarrow>
                                    LoadRawSepareble_store callback raw load_raws_size
                                      (GetHandle stage) res (PicaVSConfig_sanitize_mul G conf)
                                      (L\<lparr>impl := (impl L)\<lparr>programmable_vertex_shaders :=
                                             ShaderDoubleCache_Inject_stage conf (code r) stage
                                               (programmable_vertex_shaders (impl L))\<rparr>,
                                         lworld := w2\<rparr>))))
                else if program_type raw = FS then
                  (let conf = BuildFromRegs G (config raw);
                       r = GenerateFragmentShader G conf (separable (impl L));
                       w1 = emit (E_CodeGenerator (Some r)) (lworld L)
                   in case Stage_Create P K (OGLShaderStage_new (separable (impl L)))
                             (code r) GL_FRAGMENT_SHADER w1 of
                        Inl e \<Rightarrow> Inl e
                      | Inr (stage, w2) \<Rightarrow>
                          LoadRawSepareble_store callback raw load_raws_size
                            (GetHandle stage) (Some r) False
                            (L\<lparr>impl := (impl L)\<lparr>fragment_shaders :=
                                   ShaderCache_Inject_stage conf stage (fragment_shaders (impl L))\<rparr>,
                               lworld := w2\<rparr>))
                else Inr (Return (L\<lparr>compilation_failed := True\<rparr>)))"

fun LoadRawSepareble ::
  "platform \<Rightarrow> constants \<Rightarrow> ('vk, 'fk) generators \<Rightarrow> bool \<Rightarrow> ShaderDiskCacheRaw list \<Rightarrow> nat
     \<Rightarrow> nat list \<Rightarrow> ('vk, 'fk) loader \<Rightarrow> error + ('vk, 'fk) loader" where
  "LoadRawSepareble P K G callback raws load_raws_size [] L = Inr L"
| "LoadRawSepareble P K G callback raws load_raws_size (i # rest) L =
     (case poll K (lworld L) of
        (stop, w0) \<Rightarrow>
          if stop \<or> compilation_failed L then Inr (L\<lparr>lworld := w0\<rparr>)
          else
            (case LoadRawSepareble_item P K G callback raws load_raws_size i (L\<lparr>lworld := w0\<rparr>) of
               Inl e \<Rightarrow> Inl e
             | Inr (Return L1) \<Rightarrow> Inr L1
             | Inr (Next L1) \<Rightarrow> LoadRawSepareble P K G callback raws load_raws_size rest L1))"

text \<open>The ranges given to the worker threads.\<close>

definition worker_ranges :: "nat \<Rightarrow> nat \<Rightarrow> (nat \<times> nat) list" where
  "worker_ranges hardware_concurrency load_raws_size =
     (let num_workers = max 1 hardware_concurrency;
          bucket_size = load_raws_size div num_workers
      in map (\<lambda>i. let is_last_worker = (i + 1 = num_workers);
                      start = bucket_size * i;
                      end = (if is_last_worker then load_raws_size else start + bucket_size)
                  in (start, end))
           [0..<num_workers])"

text \<open>The workers, run one after the other in the order of their index: one of the schedules the
  threads can take. The graphics contexts (\<open>Acquire\<close>, \<open>SaveContext\<close>, \<open>CreateSharedContext\<close>,
  \<open>RestoreContext\<close>), the mutex and the log messages are not part of the model.\<close>

fun run_workers ::
  "platform \<Rightarrow> constants \<Rightarrow> ('vk, 'fk) generators \<Rightarrow> bool \<Rightarrow> ShaderDiskCacheRaw list \<Rightarrow> nat
     \<Rightarrow> (nat \<times> nat) list \<Rightarrow> ('vk, 'fk) loader \<Rightarrow> error + ('vk, 'fk) loader" where
  "run_workers P K G callback raws load_raws_size [] L = Inr L"
| "run_workers P K G callback raws load_raws_size (bucket # rest) L =
     (case LoadRawSepareble P K G callback raws load_raws_size [fst bucket..<snd bucket] L of
        Inl e \<Rightarrow> Inl e
      | Inr L1 \<Rightarrow> run_workers P K G callback raws load_raws_size rest L1)"

text \<open>Lines 466 to 606: the loads from the disk cache and the precompiled phase.
  \<open>Return\<close> is an early \<open>return\<close> of \<open>LoadDiskCache\<close>.\<close>

definition LoadDiskCache_precompiled ::
  "platform \<Rightarrow> constants \<Rightarrow> ('vk, 'fk) generators \<Rightarrow> bool \<Rightarrow> ShaderDiskCacheRaw list option
     \<Rightarrow> (bool \<Rightarrow> (u64 \<times> ShaderDiskCacheDecompiled) list \<times> (u64 \<times> ShaderDiskCacheDump) list)
     \<Rightarrow> ('vk, 'fk) Impl \<times> world \<Rightarrow> error + ('vk, 'fk) loader flow" where
  "LoadDiskCache_precompiled P K G callback LoadTransferable LoadPrecompiled = (\<lambda>(I, w).
     (let L = \<lparr>impl = I, lworld = w, dumps = [], precompiled_cache_altered = False,
               compilation_failed = False, load_raws_index = [], load_all_raws = False,
               built_shaders = 0\<rparr>
      in case LoadTransferable of
           None \<Rightarrow> Inr (Return L)
         | Some raws \<Rightarrow>
             (case LoadPrecompiled (separable I) of
                (decompiled, dumps0) \<Rightarrow>
                  (case poll K w of
                     (stop, w0) \<Rightarrow>
                       if stop then Inr (Return (L\<lparr>lworld := w0, dumps := dumps0\<rparr>))
                       else
                         let supported_formats = GetSupportedFormats P w0;
                             L0 = L\<lparr>lworld := report callback Decompile 0 (length raws) w0,
                                    dumps := dumps0\<rparr>
                         in (case (if separable I
                                   then LoadPrecompiledShader P K G callback supported_formats raws
                                          decompiled dumps0 [0..<length raws] L0
                                   else LoadPrecompiledProgram P K callback supported_formats
                                          decompiled (length dumps0) dumps0 0 L0) of
                               Inl e \<Rightarrow> Inl e
                             | Inr L1 \<Rightarrow> Inr (Next L1))))))"

text \<open>Lines 608 to 616: what a rejected dump leads to.\<close>

definition LoadDiskCache_rejected :: "('vk, 'fk) loader \<Rightarrow> ('vk, 'fk) loader" where
  "LoadDiskCache_rejected L =
     (if compilation_failed L
      then L\<lparr>impl := (impl L)\<lparr>program_cache := []\<rparr>,
             lworld := emit E_InvalidatePrecompiled (lworld L),
             dumps := [],
             precompiled_cache_altered := True,
             load_all_raws := True\<rparr>
      else L\<lparr>load_all_raws := False\<rparr>)"

text \<open>Lines 617 to 727: the rebuild from the raw entries and the final writes.\<close>

definition LoadDiskCache_raws ::
  "platform \<Rightarrow> constants \<Rightarrow> ('vk, 'fk) generators \<Rightarrow> bool \<Rightarrow> bool \<Rightarrow> nat
     \<Rightarrow> ShaderDiskCacheRaw list \<Rightarrow> ('vk, 'fk) loader \<Rightarrow> error + ('vk, 'fk) loader" where
  "LoadDiskCache_raws P K G callback strict_context_required hardware_concurrency raws L =
     (if \<not> separable (impl L) then Inr L
      else
        let load_raws_size = (if load_all_raws L then length raws else length (load_raws_index L));
            L1 = L\<lparr>lworld := report callback Build 0 load_raws_size (lworld L),
                   compilation_failed := False,
                   built_shaders := 0\<rparr>
        in case (if \<not> strict_context_required
                 then run_workers P K G callback raws load_raws_size
                        (worker_ranges hardware_concurrency load_raws_size) L1
                 else LoadRawSepareble P K G callback raws load_raws_size [0..<load_raws_size] L1) of
             Inl e \<Rightarrow> Inl e
           | Inr L2 \<Rightarrow>
               (let L3 = (if compilation_failed L2
                          then L2\<lparr>lworld := emit E_InvalidateAll (lworld L2)\<rparr> else L2)
                in Inr (if precompiled_cache_altered L3
                        then L3\<lparr>lworld := emit E_SaveVirtualPrecompiledFile (lworld L3)\<rparr>
                        else L3)))"

definition LoadDiskCache ::
  "platform \<Rightarrow> constants \<Rightarrow> ('vk, 'fk) generators \<Rightarrow> bool \<Rightarrow> bool \<Rightarrow> nat
     \<Rightarrow> ShaderDiskCacheRaw list option
     \<Rightarrow> (bool \<Rightarrow> (u64 \<times> ShaderDiskCacheDecompiled) list \<times> (u64 \<times> ShaderDiskCacheDump) list)
     \<Rightarrow> ('vk, 'fk) Impl \<times> world \<Rightarrow> error + ('vk, 'fk) loader" where
  "LoadDiskCache P K G callback strict_context_required hardware_concurrency
       LoadTransferable LoadPrecompiled Iw =
     (case LoadDiskCache_precompiled P K G callback LoadTransferable LoadPrecompiled Iw of
        Inl e \<Rightarrow> Inl e
      | Inr (Return L) \<Rightarrow> Inr L
      | Inr (Next L) \<Rightarrow>
          LoadDiskCache_raws P K G callback strict_context_required hardware_concurrency
            (case LoadTransferable of None \<Rightarrow> [] | Some raws \<Rightarrow> raws)
            (LoadDiskCache_rejected L))"

section \<open>Observations\<close>

text \<open>Kinds of calls in the trace.\<close>

fun is_binding :: "event \<Rightarrow> bool" where
  "is_binding (E_glUniformBlockBinding _ _ _) = True"
| "is_binding (E_glUniform1i _ _) = True"
| "is_binding (E_Apply _) = True"
| "is_binding _ = False"

fun is_compile :: "event \<Rightarrow> bool" where
  "is_compile (E_OGLShader_Create _ _ _) = True"
| "is_compile _ = False"

fun is_generate :: "event \<Rightarrow> bool" where
  "is_generate (E_CodeGenerator _) = True"
| "is_generate _ = False"

fun is_load_binary :: "event \<Rightarrow> bool" where
  "is_load_binary (E_glProgramBinary _ _ _) = True"
| "is_load_binary _ = False"

text \<open>The calls on the disk cache.\<close>

fun is_disk :: "event \<Rightarrow> bool" where
  "is_disk (E_SaveRaw _) = True"
| "is_disk (E_SaveDecompiled _ _ _) = True"
| "is_disk (E_SaveDump _ _) = True"
| "is_disk E_InvalidateAll = True"
| "is_disk E_InvalidatePrecompiled = True"
| "is_disk E_SaveVirtualPrecompiledFile = True"
| "is_disk _ = False"

fun is_serialize :: "event \<Rightarrow> bool" where
  "is_serialize E_SaveVirtualPrecompiledFile = True"
| "is_serialize _ = False"

text \<open>A call of \<open>glProgramBinary\<close> with a format outside a given set.\<close>

fun unsupported_binary :: "GLenum set \<Rightarrow> event \<Rightarrow> bool" where
  "unsupported_binary formats (E_glProgramBinary _ format _) = (format \<notin> formats)"
| "unsupported_binary formats _ = False"

text \<open>The calls that the loops of \<open>LoadDiskCache\<close> never make: writing the precompiled file
  back, and loading a binary of a format outside the given set.\<close>

definition watched :: "GLenum set \<Rightarrow> event \<Rightarrow> bool" where
  "watched formats e = (is_serialize e \<or> unsupported_binary formats e)"

text \<open>Each key of the single-level cache has one node, hence one stage.\<close>

definition ShaderCache_inv :: "'k ShaderCache \<Rightarrow> bool" where
  "ShaderCache_inv c = distinct (map fst (shaders c))"

text \<open>Each source text of the second level has one node, each key of the first level has one
  pointer, and every pointer that is not null points to a node of the second level.\<close>

definition ShaderDoubleCache_inv :: "'k ShaderDoubleCache \<Rightarrow> bool" where
  "ShaderDoubleCache_inv c =
     (distinct (map fst (shader_cache c)) \<and> distinct (map fst (shader_map c)) \<and>
      (\<forall>p \<in> set (map snd (shader_map c)).
         case p of None \<Rightarrow> True | Some src \<Rightarrow> src \<in> set (map fst (shader_cache c))))"




text \<open>What a run of \<open>LoadDiskCache\<close> leaves: whether the precompiled store was altered, which
  raw entries were to be rebuilt, and the calls made.\<close>

definition outcome :: "('vk, 'fk) loader \<Rightarrow> bool \<times> bool \<times> nat list \<times> event list" where
  "outcome L =
     (precompiled_cache_altered L, load_all_raws L, load_raws_index L, trace (lworld L))"

section \<open>Concrete inputs\<close>

text \<open>A platform on which every build succeeds, no uniform is present and format 1 is the only
  binary format.\<close>

definition platform_plain :: platform where
  "platform_plain =
     \<lparr>glGetUniformBlockIndex = (\<lambda>t shader name. GL_INVALID_INDEX),
      GL_UNIFORM_BLOCK_DATA_SIZE = (\<lambda>t shader index. 0),
      glGetUniformLocation = (\<lambda>t shader name. - 1),
      glCreateProgram = (\<lambda>t. word_of_nat (Suc (length t))),
      GL_LINK_STATUS = (\<lambda>t handle. True),
      GL_PROGRAM_BINARY_FORMATS = (\<lambda>t. [1]),
      OGLShader_Create = (\<lambda>t source type. word_of_nat (Suc (length t))),
      OGLProgram_Create = (\<lambda>t sep shaders. word_of_nat (Suc (length t)))\<rparr>"

text \<open>The same platform with a uniform block \<open>shader_data\<close> of 16 bytes.\<close>

definition platform_blocks :: platform where
  "platform_blocks =
     platform_plain
       \<lparr>glGetUniformBlockIndex :=
          (\<lambda>t shader name. if name = ''shader_data'' then 0 else GL_INVALID_INDEX),
        GL_UNIFORM_BLOCK_DATA_SIZE := (\<lambda>t shader index. 16)\<rparr>"

definition constants_plain :: constants where
  "constants_plain =
     \<lparr>sizeof_UniformData = 32,
      sizeof_VSUniformData = 32,
      binding_slot = (\<lambda>b. case b of UB_Common \<Rightarrow> 0 | UB_VS \<Rightarrow> 1),
      texture_unit_id = (\<lambda>u. 0),
      image_unit = (\<lambda>u. 0),
      MAX_PROGRAM_CODE_LENGTH = 1,
      MAX_SWIZZLE_DATA_LENGTH = 1,
      ComputeHash64 = (\<lambda>ws. word_of_nat (length ws)),
      HashCombine = (\<lambda>h u. 3 * h + u),
      g_hw_shader_accurate_mul = False,
      stop_loading = (\<lambda>n. False)\<rparr>"

text \<open>Keys that keep what they were built from; the vertex generator needs no shader for an
  empty program and gives the same source for every other one.\<close>

definition generators_plain :: "(Regs \<times> u32 list, Regs) generators" where
  "generators_plain =
     \<lparr>GenerateVertexShader =
        (\<lambda>setup key sep. if setup_program_code setup = [] then None else Some \<lparr>code = ''vs''\<rparr>),
      GenerateFragmentShader = (\<lambda>key sep. \<lparr>code = ''fs''\<rparr>),
      PicaVSConfig = (\<lambda>regs setup. (regs, setup_program_code setup)),
      PicaVSConfig_Hash = (\<lambda>key. 0),
      PicaVSConfig_sanitize_mul = (\<lambda>key. False),
      BuildFromRegs = (\<lambda>regs. regs)\<rparr>"

definition setup_empty :: ShaderSetup where
  "setup_empty = \<lparr>setup_program_code = [], setup_swizzle_data = []\<rparr>"

definition setup_one :: ShaderSetup where
  "setup_one = \<lparr>setup_program_code = [5], setup_swizzle_data = [6]\<rparr>"

definition world_start :: world where
  "world_start = \<lparr>trace = [], cur_shader_program = 0, polls = 0\<rparr>"

definition Impl_start :: "bool \<Rightarrow> (Regs \<times> u32 list, Regs) Impl" where
  "Impl_start sep =
     \<lparr>separable = sep,
      current = \<lparr>vs_hash = 0, gs_hash = 0, fs_hash = 0, vs = 0, gs = 0, fs = 0\<rparr>,
      programmable_vertex_shaders = ShaderDoubleCache_new sep,
      fragment_shaders = ShaderCache_new sep,
      program_cache = []\<rparr>"

text \<open>Raw entries: a fragment entry with one register whose stored identifier is its hash (1),
  the same entry with identifier 9, a second fragment entry (two registers, hash 2), and a vertex
  entry with no register and two words of code (hash 2 after combining 0).\<close>

definition raw_fs :: ShaderDiskCacheRaw where
  "raw_fs = \<lparr>unique_identifier = 1, program_type = FS, config = [7], program_code = []\<rparr>"

definition raw_fs_corrupt :: ShaderDiskCacheRaw where
  "raw_fs_corrupt = raw_fs\<lparr>unique_identifier := 9\<rparr>"

definition raw_fs2 :: ShaderDiskCacheRaw where
  "raw_fs2 = \<lparr>unique_identifier = 2, program_type = FS, config = [7, 8], program_code = []\<rparr>"

definition raw_vs :: ShaderDiskCacheRaw where
  "raw_vs = \<lparr>unique_identifier = 2, program_type = VS, config = [], program_code = [3, 4]\<rparr>"

definition decompiled_entry :: "bool \<Rightarrow> ShaderDiskCacheDecompiled" where
  "decompiled_entry flag = \<lparr>result = \<lparr>code = ''fs''\<rparr>, sanitize_mul = flag\<rparr>"

definition dump_entry :: "GLenum \<Rightarrow> ShaderDiskCacheDump" where
  "dump_entry format = \<lparr>binary_format = format, binary = [1, 2, 3]\<rparr>"

text \<open>What \<open>LoadPrecompiled\<close> finds on disk: nothing; a record and a dump for \<open>raw_fs\<close> and
  \<open>raw_fs2\<close>, the first dump in a format the platform does not list; a record and a dump for
  \<open>raw_vs\<close>, written with the other setting of the sanitization flag; a record and a dump of an
  unlisted format for one entry.\<close>

definition precompiled_none ::
  "bool \<Rightarrow> (u64 \<times> ShaderDiskCacheDecompiled) list \<times> (u64 \<times> ShaderDiskCacheDump) list" where
  "precompiled_none sep = ([], [])"

definition precompiled_old_format ::
  "bool \<Rightarrow> (u64 \<times> ShaderDiskCacheDecompiled) list \<times> (u64 \<times> ShaderDiskCacheDump) list" where
  "precompiled_old_format sep =
     ([(1, decompiled_entry False), (2, decompiled_entry False)],
      [(1, dump_entry 5), (2, dump_entry 1)])"

definition precompiled_other_mode ::
  "bool \<Rightarrow> (u64 \<times> ShaderDiskCacheDecompiled) list \<times> (u64 \<times> ShaderDiskCacheDump) list" where
  "precompiled_other_mode sep = ([(2, decompiled_entry True)], [(2, dump_entry 1)])"


text \<open>The locals of \<open>LoadDiskCache\<close> when its precompiled phase starts.\<close>

definition loader_start :: "bool \<Rightarrow> (Regs \<times> u32 list, Regs) loader" where
  "loader_start sep =
     \<lparr>impl = Impl_start sep, lworld = world_start, dumps = [],
      precompiled_cache_altered = False, compilation_failed = False, load_raws_index = [],
      load_all_raws = False, built_shaders = 0\<rparr>"

text \<open>The outcome of a run that returned.\<close>

definition run_outcome ::
  "error + ('vk, 'fk) loader \<Rightarrow> error + (bool \<times> bool \<times> nat list \<times> event list)" where
  "run_outcome r = (case r of Inl e \<Rightarrow> Inl e | Inr L \<Rightarrow> Inr (outcome L))"

section \<open>Facts about the trace\<close>

lemma trace_emit [simp]: "trace (emit e w) = trace w @ [e]"
  by (simp add: emit_def)

lemma polls_emit [simp]: "polls (emit e w) = polls w"
  by (simp add: emit_def)

lemma cur_emit [simp]: "cur_shader_program (emit e w) = cur_shader_program w"
  by (simp add: emit_def)

lemma binding_kinds [simp]:
  "is_binding e \<Longrightarrow> \<not> is_generate e"
  "is_binding e \<Longrightarrow> \<not> is_compile e"
  "is_binding e \<Longrightarrow> \<not> is_disk e"
  "is_binding e \<Longrightarrow> \<not> is_serialize e"
  "is_binding e \<Longrightarrow> \<not> is_load_binary e"
  by (cases e; simp)+

text \<open>The binding helpers add binding calls only.\<close>

lemma SetShaderUniformBlockBinding_quiet:
  assumes "SetShaderUniformBlockBinding P K shader name binding sz w = Inr w'"
    and "\<And>e. is_binding e \<Longrightarrow> \<not> Q e"
  shows "filter Q (trace w') = filter Q (trace w)"
  using assms by (auto simp: SetShaderUniformBlockBinding_def Let_def split: if_splits)

lemma SetShaderUniformBlockBindings_quiet:
  assumes "SetShaderUniformBlockBindings P K shader w = Inr w'"
    and "\<And>e. is_binding e \<Longrightarrow> \<not> Q e"
  shows "filter Q (trace w') = filter Q (trace w)"
  using assms
  by (auto simp: SetShaderUniformBlockBindings_def split: sum.splits
      dest!: SetShaderUniformBlockBinding_quiet [where Q = Q])

lemma SetShaderSamplerBinding_quiet:
  assumes "\<And>e. is_binding e \<Longrightarrow> \<not> Q e"
  shows "filter Q (trace (SetShaderSamplerBinding P K shader name unit w)) = filter Q (trace w)"
  using assms by (simp add: SetShaderSamplerBinding_def Let_def)

lemma SetShaderImageBinding_quiet:
  assumes "\<And>e. is_binding e \<Longrightarrow> \<not> Q e"
  shows "filter Q (trace (SetShaderImageBinding P shader name unit w)) = filter Q (trace w)"
  using assms by (simp add: SetShaderImageBinding_def Let_def)

lemma fold_sampler_quiet:
  assumes "\<And>e. is_binding e \<Longrightarrow> \<not> Q e"
  shows "filter Q (trace (fold (\<lambda>(name, unit). SetShaderSamplerBinding P K shader name unit) xs w))
         = filter Q (trace w)"
  using assms by (induction xs arbitrary: w) (auto simp: SetShaderSamplerBinding_quiet)

lemma fold_image_quiet:
  assumes "\<And>e. is_binding e \<Longrightarrow> \<not> Q e"
  shows "filter Q (trace (fold (\<lambda>(name, unit). SetShaderImageBinding P shader name (f unit)) xs w))
         = filter Q (trace w)"
  using assms by (induction xs arbitrary: w) (auto simp: SetShaderImageBinding_quiet)

lemma SetShaderSamplerBindings_quiet:
  assumes "\<And>e. is_binding e \<Longrightarrow> \<not> Q e"
  shows "filter Q (trace (SetShaderSamplerBindings P K shader w)) = filter Q (trace w)"
  using assms
  by (simp add: SetShaderSamplerBindings_def Let_def Apply_def fold_sampler_quiet fold_image_quiet)

text \<open>Building a stage compiles its source once; injecting a program compiles nothing.\<close>

lemma Stage_Create_trace:
  assumes "Stage_Create P K stage source type w = Inr (created, w')"
    and "\<And>e. is_binding e \<Longrightarrow> \<not> Q e"
    and "\<And>sep hs h. \<not> Q (E_OGLProgram_Create sep hs h)"
  shows "filter Q (trace w') =
         filter Q (trace w) @ filter Q [E_OGLShader_Create source type (OGLShader_Create P (trace w) source type)]"
  using assms
  by (auto simp: Stage_Create_def Let_def SetShaderSamplerBindings_quiet
      split: OGLShaderStage.splits sum.splits if_splits
      dest!: SetShaderUniformBlockBindings_quiet [where Q = Q])

lemma Stage_Inject_quiet:
  assumes "Stage_Inject P K program w = Inr (stage, w')"
    and "\<And>e. is_binding e \<Longrightarrow> \<not> Q e"
  shows "filter Q (trace w') = filter Q (trace w)"
  using assms
  by (auto simp: Stage_Inject_def SetShaderSamplerBindings_quiet split: sum.splits
      dest!: SetShaderUniformBlockBindings_quiet [where Q = Q])

text \<open>A stage fails to build only by the assertion on a uniform block, on a separable platform.\<close>

lemma SetShaderUniformBlockBinding_error:
  "SetShaderUniformBlockBinding P K shader name binding sz w = Inl e \<Longrightarrow> e = AssertFailed"
  by (auto simp: SetShaderUniformBlockBinding_def Let_def split: if_splits)

lemma SetShaderUniformBlockBindings_error:
  "SetShaderUniformBlockBindings P K shader w = Inl e \<Longrightarrow> e = AssertFailed"
  by (auto simp: SetShaderUniformBlockBindings_def split: sum.splits
      dest: SetShaderUniformBlockBinding_error)

lemma Stage_Create_error:
  "Stage_Create P K (OGLShaderStage_new sep) source type w = Inl e \<Longrightarrow> sep \<and> e = AssertFailed"
  by (auto simp: Stage_Create_def OGLShaderStage_new_def Let_def
      split: if_splits sum.splits dest: SetShaderUniformBlockBindings_error)

lemma map_of_update: "map_of (AList.update k v al) k' = (if k' = k then Some v else map_of al k')"
  by (simp add: update_conv')

lemma update_appended:
  "map_of al k = None \<Longrightarrow> AList.update k v (al @ [(k, v0)]) = al @ [(k, v)]"
  by (induction al) (auto split: if_splits)

lemma fixture_simps:
  "glGetUniformBlockIndex platform_blocks t s n = (if n = ''shader_data'' then 0 else GL_INVALID_INDEX)"
  "GL_UNIFORM_BLOCK_DATA_SIZE platform_blocks t s i = 16"
  "glGetUniformLocation platform_blocks t s n = - 1"
  "glGetUniformBlockIndex platform_plain t s n = GL_INVALID_INDEX"
  "glGetUniformLocation platform_plain t s n = - 1"
  by (simp_all add: platform_blocks_def platform_plain_def)

section \<open>Uniform bindings\<close>

text \<open>C9. When a named uniform block is bound, a block that is present and whose size reported by
  the platform differs from the expected size fails the assertion, and the failure ends the
  binding of the blocks and the injection of the program; a block that is absent is skipped and
  nothing changes; a sampler or image uniform that is absent is skipped and nothing changes.\<close>

theorem uniform_binding_checks:
  "(glGetUniformBlockIndex P (trace w) shader name \<noteq> GL_INVALID_INDEX \<and>
    (scast (GL_UNIFORM_BLOCK_DATA_SIZE P (trace w) shader
              (glGetUniformBlockIndex P (trace w) shader name)) :: size_t) \<noteq> expected_size
      \<longrightarrow> SetShaderUniformBlockBinding P K shader name binding expected_size w = Inl AssertFailed)
   \<and> (glGetUniformBlockIndex P (trace w) shader ''shader_data'' \<noteq> GL_INVALID_INDEX \<and>
      (scast (GL_UNIFORM_BLOCK_DATA_SIZE P (trace w) shader
                (glGetUniformBlockIndex P (trace w) shader ''shader_data'')) :: size_t)
        \<noteq> sizeof_UniformData K
      \<longrightarrow> SetShaderUniformBlockBindings P K shader w = Inl AssertFailed
          \<and> Stage_Inject P K shader w = Inl AssertFailed)
   \<and> (glGetUniformBlockIndex P (trace w) shader name = GL_INVALID_INDEX
      \<longrightarrow> SetShaderUniformBlockBinding P K shader name binding expected_size w = Inr w)
   \<and> (glGetUniformLocation P (trace w) shader name = - 1
      \<longrightarrow> SetShaderSamplerBinding P K shader name unit w = w
          \<and> SetShaderImageBinding P shader name img w = w)"
  by (simp add: SetShaderUniformBlockBinding_def SetShaderUniformBlockBindings_def
        Stage_Inject_def SetShaderSamplerBinding_def SetShaderImageBinding_def Let_def)

theorem uniform_binding_checks_witness:
  "SetShaderUniformBlockBinding platform_blocks constants_plain 3 ''shader_data'' UB_Common 32
     world_start = Inl AssertFailed
   \<and> SetShaderUniformBlockBindings platform_blocks constants_plain 3 world_start
       = Inl AssertFailed
   \<and> Stage_Inject platform_blocks constants_plain 3 world_start = Inl AssertFailed
   \<and> SetShaderUniformBlockBinding platform_blocks constants_plain 3 ''vs_config'' UB_VS 32
       world_start = Inr world_start
   \<and> SetShaderSamplerBinding platform_blocks constants_plain 3 ''tex0'' (PicaTexture 0)
       world_start = world_start
   \<and> SetShaderImageBinding platform_blocks 3 ''shadow_buffer'' 0 world_start = world_start"
proof -
  have size: "sizeof_UniformData constants_plain = 32"
    by (simp add: constants_plain_def)
  show ?thesis
    using uniform_binding_checks [of platform_blocks world_start 3 "''shader_data''" 32
            constants_plain UB_Common "PicaTexture 0" 0]
      uniform_binding_checks [of platform_blocks world_start 3 "''vs_config''" 32
            constants_plain UB_VS "PicaTexture 0" 0]
      uniform_binding_checks [of platform_blocks world_start 3 "''tex0''" 32
            constants_plain UB_VS "PicaTexture 0" 0]
      uniform_binding_checks [of platform_blocks world_start 3 "''shadow_buffer''" 32
            constants_plain UB_VS "PicaTexture 0" 0]
    by (simp add: fixture_simps GL_INVALID_INDEX_def size)
qed

section \<open>The single-level cache\<close>

text \<open>C4. On a fresh single-level cache, \<open>Get\<close> of a config followed by \<open>Get\<close> of an equal
  config return the same handle: the first call invokes the source generator once and returns the
  source it generated, the second call returns no source and changes nothing. The first call
  returns unless the assertion on a uniform block fails, which only a separable platform can
  meet.\<close>

theorem ShaderCache_Get_twice:
  assumes "c1 = c2"
  shows "case ShaderCache_Get P K CodeGenerator ShaderType c1 (ShaderCache_new sep, w) of
           Inl e \<Rightarrow> sep \<and> e = AssertFailed
         | Inr ((handle, res), cache1, w1) \<Rightarrow>
             res = Some (CodeGenerator c1 sep)
           \<and> filter is_generate (trace w1)
               = filter is_generate (trace w) @ [E_CodeGenerator (Some (CodeGenerator c1 sep))]
           \<and> ShaderCache_Get P K CodeGenerator ShaderType c2 (cache1, w1)
               = Inr ((handle, None), cache1, w1)"
proof (cases "ShaderCache_Get P K CodeGenerator ShaderType c1 (ShaderCache_new sep, w)")
  case (Inl e)
  then have "Stage_Create P K (OGLShaderStage_new sep) (code (CodeGenerator c1 sep)) ShaderType
           (emit (E_CodeGenerator (Some (CodeGenerator c1 sep))) w) = Inl e"
    by (auto simp: ShaderCache_Get_def ShaderCache_new_def emplace_def Let_def
        split: sum.splits)
  from Stage_Create_error [OF this] Inl show ?thesis by simp
next
  case (Inr r)
  then obtain handle res cache1 w1 where r: "r = ((handle, res), cache1, w1)"
    by (cases r) auto
  from Inr r obtain created where
    cr: "Stage_Create P K (OGLShaderStage_new sep) (code (CodeGenerator c1 sep)) ShaderType
           (emit (E_CodeGenerator (Some (CodeGenerator c1 sep))) w) = Inr (created, w1)"
    and h: "handle = GetHandle created" and res: "res = Some (CodeGenerator c1 sep)"
    and c: "cache1 = \<lparr>sc_separable = sep, shaders = [(c1, created)]\<rparr>"
    by (auto simp: ShaderCache_Get_def ShaderCache_new_def emplace_def Let_def
        split: sum.splits)
  have g: "filter is_generate (trace w1)
          = filter is_generate (trace w) @ [E_CodeGenerator (Some (CodeGenerator c1 sep))]"
    using Stage_Create_trace [OF cr, of is_generate] by simp
  have "ShaderCache_Get P K CodeGenerator ShaderType c2 (cache1, w1)
           = Inr ((handle, None), cache1, w1)"
    using assms h c by (simp add: ShaderCache_Get_def emplace_def)
  with Inr r res g show ?thesis by simp
qed

theorem ShaderCache_Get_twice_witness:
  "(case ShaderCache_Get platform_plain constants_plain (GenerateFragmentShader generators_plain)
           GL_FRAGMENT_SHADER [7] (ShaderCache_new True, world_start) of
      Inl e \<Rightarrow> False
    | Inr (hr, cw) \<Rightarrow>
        hr = (3, Some \<lparr>code = ''fs''\<rparr>)
      \<and> ShaderCache_Get platform_plain constants_plain (GenerateFragmentShader generators_plain)
           GL_FRAGMENT_SHADER [7] cw = Inr ((3, None), cw))"
proof -
  have first:
    "ShaderCache_Get platform_plain constants_plain (GenerateFragmentShader generators_plain)
       GL_FRAGMENT_SHADER [7] (ShaderCache_new True, world_start)
     = Inr ((3, Some \<lparr>code = ''fs''\<rparr>),
          \<lparr>sc_separable = True, shaders = [([7], StageProgram 3)]\<rparr>,
          \<lparr>trace = [E_CodeGenerator (Some \<lparr>code = ''fs''\<rparr>),
                    E_OGLShader_Create ''fs'' 35632 2, E_OGLProgram_Create True [2] 3,
                    E_Apply 3, E_Apply 0],
           cur_shader_program = 0, polls = 0\<rparr>)"
    by code_simp
  have g: "GenerateFragmentShader generators_plain [7] True = \<lparr>code = ''fs''\<rparr>"
    by (simp add: generators_plain_def)
  from ShaderCache_Get_twice [where ?c1.0 = "[7]" and ?c2.0 = "[7]" and P = platform_plain
      and K = constants_plain and CodeGenerator = "GenerateFragmentShader generators_plain"
      and ShaderType = GL_FRAGMENT_SHADER and sep = True and w = world_start, OF refl]
  have second:
    "ShaderCache_Get platform_plain constants_plain (GenerateFragmentShader generators_plain)
       GL_FRAGMENT_SHADER [7]
       (\<lparr>sc_separable = True, shaders = [([7], StageProgram 3)]\<rparr>,
        \<lparr>trace = [E_CodeGenerator (Some \<lparr>code = ''fs''\<rparr>),
                  E_OGLShader_Create ''fs'' 35632 2, E_OGLProgram_Create True [2] 3,
                  E_Apply 3, E_Apply 0],
         cur_shader_program = 0, polls = 0\<rparr>)
     = Inr ((3, None),
          \<lparr>sc_separable = True, shaders = [([7], StageProgram 3)]\<rparr>,
          \<lparr>trace = [E_CodeGenerator (Some \<lparr>code = ''fs''\<rparr>),
                    E_OGLShader_Create ''fs'' 35632 2, E_OGLProgram_Create True [2] 3,
                    E_Apply 3, E_Apply 0],
           cur_shader_program = 0, polls = 0\<rparr>)"
    by (simp add: first g)
  show ?thesis
    by (simp only: first second sum.case prod.case simp_thms)
qed

section \<open>The double-level cache\<close>

text \<open>C5. On a double-level cache that holds neither of two distinct keys nor the source text that
  both generate, \<open>Get\<close> of the first and then of the second compile once: the first call returns
  the new source, the second call returns no source and the same handle, and both keys point to
  the one stage of that source. The first call returns unless the assertion on a uniform block
  fails, which only a separable platform can meet.\<close>

theorem ShaderDoubleCache_Get_same_source:
  assumes "A \<noteq> B"
    and "CodeGenerator setupA A (dc_separable c) = Some pa"
    and "CodeGenerator setupB B (dc_separable c) = Some pb"
    and "code pa = code pb"
    and "map_of (shader_map c) A = None"
    and "map_of (shader_map c) B = None"
    and "map_of (shader_cache c) (code pa) = None"
  shows "case ShaderDoubleCache_Get P K CodeGenerator ShaderType A setupA (c, w) of
           Inl e \<Rightarrow> dc_separable c \<and> e = AssertFailed
         | Inr ((handleA, resA), cache1, w1) \<Rightarrow>
             resA = Some \<lparr>code = code pa\<rparr>
           \<and> (\<exists>cache2 w2.
                ShaderDoubleCache_Get P K CodeGenerator ShaderType B setupB (cache1, w1)
                  = Inr ((handleA, None), cache2, w2)
              \<and> length (filter is_compile (trace w2))
                  = Suc (length (filter is_compile (trace w)))
              \<and> map_of (shader_map cache2) A = Some (Some (code pa))
              \<and> map_of (shader_map cache2) B = Some (Some (code pa))
              \<and> length (filter (\<lambda>n. fst n = code pa) (shader_cache cache2)) = 1)"
proof (cases "ShaderDoubleCache_Get P K CodeGenerator ShaderType A setupA (c, w)")
  case (Inl e)
  with assms(2,5,7) have
    "Stage_Create P K (OGLShaderStage_new (dc_separable c)) (code pa) ShaderType
           (emit (E_CodeGenerator (Some pa)) w) = Inl e"
    by (auto simp: ShaderDoubleCache_Get_def emplace_def Let_def split: sum.splits)
  from Stage_Create_error [OF this] Inl show ?thesis by simp
next
  case (Inr r)
  then obtain handleA resA cache1 w1 where r: "r = ((handleA, resA), cache1, w1)"
    by (cases r) auto
  let ?src = "code pa"
  from assms(2,5,7) Inr r obtain created where
    cr: "Stage_Create P K (OGLShaderStage_new (dc_separable c)) ?src ShaderType
           (emit (E_CodeGenerator (Some pa)) w) = Inr (created, w1)"
    and h: "handleA = GetHandle created" and res: "resA = Some \<lparr>code = ?src\<rparr>"
    and c1: "cache1 = c\<lparr>shader_cache :=
                          AList.update ?src created
                            (shader_cache c @ [(?src, OGLShaderStage_new (dc_separable c))]),
                        shader_map := AList.update A (Some ?src) (shader_map c)\<rparr>"
    by (auto simp: ShaderDoubleCache_Get_def emplace_def Let_def split: sum.splits)
  have n: "length (filter is_compile (trace w1)) = Suc (length (filter is_compile (trace w)))"
    using Stage_Create_trace [OF cr, of is_compile] by simp
  have absent: "filter (\<lambda>n. fst n = ?src) (shader_cache c) = []"
    using assms(7) by (auto simp: filter_empty_conv map_of_eq_None_iff image_iff)
  have cache: "shader_cache cache1 = shader_cache c @ [(?src, created)]"
    using assms(7) c1 by (simp add: update_appended)
  have one: "length (filter (\<lambda>n. fst n = ?src) (shader_cache cache1)) = 1"
    using absent cache by simp
  have "ShaderDoubleCache_Get P K CodeGenerator ShaderType B setupB (cache1, w1)
          = Inr ((handleA, None),
                 cache1\<lparr>shader_map := AList.update B (Some ?src) (shader_map cache1)\<rparr>,
                 emit (E_CodeGenerator (Some pb)) w1)"
    using assms(1,3,4,6) h c1
    by (simp add: ShaderDoubleCache_Get_def emplace_def Let_def map_of_update)
  then show ?thesis using Inr r res n c1 one assms(1) by (simp add: map_of_update)
qed

theorem ShaderDoubleCache_Get_same_source_witness:
  "(case ShaderDoubleCache_Get platform_plain constants_plain
           (GenerateVertexShader generators_plain) GL_VERTEX_SHADER ([], [1]) setup_one
           (ShaderDoubleCache_new True, world_start) of
      Inl e \<Rightarrow> False
    | Inr (hr, cw) \<Rightarrow>
        hr = (3, Some \<lparr>code = ''vs''\<rparr>)
      \<and> (\<exists>cache2 w2.
            ShaderDoubleCache_Get platform_plain constants_plain
              (GenerateVertexShader generators_plain) GL_VERTEX_SHADER ([], [2]) setup_one cw
            = Inr ((3, None), cache2, w2)
          \<and> length (filter is_compile (trace w2)) = 1
          \<and> map_of (shader_map cache2) ([], [1]) = map_of (shader_map cache2) ([], [2])))"
proof -
  let ?new = "ShaderDoubleCache_new True :: (Regs \<times> u32 list) ShaderDoubleCache"
  have gen: "GenerateVertexShader generators_plain setup_one k (dc_separable ?new)
               = Some \<lparr>code = ''vs''\<rparr>" for k
    by (simp add: generators_plain_def setup_one_def)
  have m1: "map_of (shader_map ?new) ([], [1]) = None"
    and m2: "map_of (shader_map ?new) ([], [2]) = None"
    and m3: "map_of (shader_cache ?new) (code \<lparr>code = ''vs''\<rparr>) = None"
    by (simp_all add: ShaderDoubleCache_new_def)
  have first:
    "ShaderDoubleCache_Get platform_plain constants_plain (GenerateVertexShader generators_plain)
       GL_VERTEX_SHADER ([], [1]) setup_one (ShaderDoubleCache_new True, world_start)
     = Inr ((3, Some \<lparr>code = ''vs''\<rparr>),
          \<lparr>dc_separable = True, shader_map = [(([], [1]), Some ''vs'')],
           shader_cache = [(''vs'', StageProgram 3)]\<rparr>,
          \<lparr>trace = [E_CodeGenerator (Some \<lparr>code = ''vs''\<rparr>),
                    E_OGLShader_Create ''vs'' 35633 2, E_OGLProgram_Create True [2] 3],
           cur_shader_program = 0, polls = 0\<rparr>)"
    by code_simp
  have ne: "(([], [1]) :: Regs \<times> u32 list) \<noteq> ([], [2])" by simp
  have start: "length (filter is_compile (trace world_start)) = 0"
    by (simp add: world_start_def)
  from ShaderDoubleCache_Get_same_source [where A = "([], [1])" and B = "([], [2])"
      and c = ?new and CodeGenerator = "GenerateVertexShader generators_plain"
      and setupA = setup_one and setupB = setup_one
      and pa = "\<lparr>code = ''vs''\<rparr>" and pb = "\<lparr>code = ''vs''\<rparr>"
      and P = platform_plain and K = constants_plain and ShaderType = GL_VERTEX_SHADER
      and w = world_start, OF ne gen gen refl m1 m2 m3]
  have inst:
    "\<exists>cache2 w2.
        ShaderDoubleCache_Get platform_plain constants_plain
          (GenerateVertexShader generators_plain) GL_VERTEX_SHADER ([], [2]) setup_one
          (\<lparr>dc_separable = True, shader_map = [(([], [1]), Some ''vs'')],
            shader_cache = [(''vs'', StageProgram 3)]\<rparr>,
           \<lparr>trace = [E_CodeGenerator (Some \<lparr>code = ''vs''\<rparr>),
                     E_OGLShader_Create ''vs'' 35633 2, E_OGLProgram_Create True [2] 3],
            cur_shader_program = 0, polls = 0\<rparr>)
        = Inr ((3, None), cache2, w2)
      \<and> length (filter is_compile (trace w2))
          = Suc (length (filter is_compile (trace world_start)))
      \<and> map_of (shader_map cache2) ([], [1]) = Some (Some (code \<lparr>code = ''vs''\<rparr>))
      \<and> map_of (shader_map cache2) ([], [2]) = Some (Some (code \<lparr>code = ''vs''\<rparr>))
      \<and> length (filter (\<lambda>n. fst n = code \<lparr>code = ''vs''\<rparr>) (shader_cache cache2)) = 1"
    by (simp add: first)
  from inst start
  have second:
    "\<exists>cache2 w2.
        ShaderDoubleCache_Get platform_plain constants_plain
          (GenerateVertexShader generators_plain) GL_VERTEX_SHADER ([], [2]) setup_one
          (\<lparr>dc_separable = True, shader_map = [(([], [1]), Some ''vs'')],
            shader_cache = [(''vs'', StageProgram 3)]\<rparr>,
           \<lparr>trace = [E_CodeGenerator (Some \<lparr>code = ''vs''\<rparr>),
                     E_OGLShader_Create ''vs'' 35633 2, E_OGLProgram_Create True [2] 3],
            cur_shader_program = 0, polls = 0\<rparr>)
        = Inr ((3, None), cache2, w2)
      \<and> length (filter is_compile (trace w2)) = 1
      \<and> map_of (shader_map cache2) ([], [1]) = map_of (shader_map cache2) ([], [2])"
    by auto
  show ?thesis
    using second by (simp only: first sum.case prod.case simp_thms)
qed







section \<open>One stage per key\<close>

lemma one_node_per_key:
  "distinct (map fst al) \<Longrightarrow> k \<in> set (map fst al)
     \<Longrightarrow> length (filter (\<lambda>n. fst n = k) al) = 1"
proof (induction al)
  case Nil
  then show ?case by simp
next
  case (Cons a al)
  show ?case
  proof (cases "fst a = k")
    case True
    with Cons.prems have "filter (\<lambda>n. fst n = k) al = []"
      by (auto simp: filter_empty_conv image_iff)
    with True show ?thesis by simp
  next
    case False
    with Cons show ?thesis by auto
  qed
qed

lemma emplace_keys:
  "map fst (fst (emplace k v al)) = (if map_of al k = None then map fst al @ [k] else map fst al)"
  by (simp add: emplace_def split: option.splits)

lemma emplace_distinct:
  "distinct (map fst al) \<Longrightarrow> distinct (map fst (fst (emplace k v al)))"
  by (auto simp: emplace_keys map_of_eq_None_iff)

lemma emplace_has_key: "k \<in> set (map fst (fst (emplace k v al)))"
  by (auto simp: emplace_keys map_of_eq_None_iff)

lemma emplace_keeps_keys: "set (map fst al) \<subseteq> set (map fst (fst (emplace k v al)))"
  by (auto simp: emplace_keys)

lemma update_pointers:
  "set (map snd (AList.update k v al)) \<subseteq> insert v (set (map snd al))"
  by (induction al) auto

lemma update_key_set: "fst ` set (AList.update k v al) = insert k (fst ` set al)"
  by (induction al) auto

lemma ShaderCache_Inject_stage_inv:
  "ShaderCache_inv c \<Longrightarrow> ShaderCache_inv (ShaderCache_Inject_stage key stage c)"
  using emplace_distinct [of "shaders c" key stage]
  by (auto simp: ShaderCache_inv_def ShaderCache_Inject_stage_def split: prod.splits)

lemma ShaderCache_Inject_inv:
  "ShaderCache_inv c \<Longrightarrow> ShaderCache_Inject P K key program (c, w) = Inr (c', w')
     \<Longrightarrow> ShaderCache_inv c'"
  by (auto simp: ShaderCache_Inject_def ShaderCache_Inject_stage_inv split: sum.splits)

lemma ShaderCache_Get_inv:
  assumes "ShaderCache_inv c"
    and "ShaderCache_Get P K CodeGenerator ShaderType cfg (c, w) = Inr (r, c', w')"
  shows "ShaderCache_inv c'"
  using assms emplace_distinct [of "shaders c" cfg "OGLShaderStage_new (sc_separable c)"]
  by (auto simp: ShaderCache_inv_def ShaderCache_Get_def Let_def distinct_update
      split: prod.splits if_splits sum.splits)

lemma ShaderDoubleCache_inv_step:
  assumes "ShaderDoubleCache_inv c"
    and "distinct (map fst cache1)"
    and "set (map fst (shader_cache c)) \<subseteq> set (map fst cache1)"
    and "case p of None \<Rightarrow> True | Some src \<Rightarrow> src \<in> set (map fst cache1)"
  shows "ShaderDoubleCache_inv
           (c\<lparr>shader_cache := cache1, shader_map := AList.update key p (shader_map c)\<rparr>)"
  unfolding ShaderDoubleCache_inv_def
proof (intro conjI ballI)
  show "distinct (map fst (shader_cache (c\<lparr>shader_cache := cache1,
          shader_map := AList.update key p (shader_map c)\<rparr>)))"
    using assms(2) by simp
  show "distinct (map fst (shader_map (c\<lparr>shader_cache := cache1,
          shader_map := AList.update key p (shader_map c)\<rparr>)))"
    using assms(1) by (simp add: ShaderDoubleCache_inv_def distinct_update)
  fix q
  assume "q \<in> set (map snd (shader_map (c\<lparr>shader_cache := cache1,
          shader_map := AList.update key p (shader_map c)\<rparr>)))"
  then have "q = p \<or> q \<in> set (map snd (shader_map c))"
    using update_pointers [of key p "shader_map c"] by auto
  then show "case q of None \<Rightarrow> True
     | Some src \<Rightarrow> src \<in> set (map fst (shader_cache (c\<lparr>shader_cache := cache1,
          shader_map := AList.update key p (shader_map c)\<rparr>)))"
    using assms(1,3,4) by (auto simp: ShaderDoubleCache_inv_def split: option.splits)
qed

lemma ShaderDoubleCache_Inject_stage_inv:
  assumes "ShaderDoubleCache_inv c"
  shows "ShaderDoubleCache_inv (ShaderDoubleCache_Inject_stage key decomp stage c)"
proof -
  obtain cache1 st b where e: "emplace decomp stage (shader_cache c) = (cache1, st, b)"
    by (cases "emplace decomp stage (shader_cache c)") auto
  have "ShaderDoubleCache_inv
          (c\<lparr>shader_cache := cache1, shader_map := AList.update key (Some decomp) (shader_map c)\<rparr>)"
  proof (rule ShaderDoubleCache_inv_step [OF assms])
    show "distinct (map fst cache1)"
      using emplace_distinct [of "shader_cache c" decomp stage] assms e
      by (simp add: ShaderDoubleCache_inv_def)
    show "set (map fst (shader_cache c)) \<subseteq> set (map fst cache1)"
      using emplace_keeps_keys [of "shader_cache c" decomp stage] e by simp
    show "case Some decomp of None \<Rightarrow> True | Some src \<Rightarrow> src \<in> set (map fst cache1)"
      using emplace_has_key [of decomp stage "shader_cache c"] e by simp
  qed
  then show ?thesis by (simp add: ShaderDoubleCache_Inject_stage_def e)
qed

lemma ShaderDoubleCache_Inject_inv:
  "ShaderDoubleCache_inv c \<Longrightarrow> ShaderDoubleCache_Inject P K key decomp program (c, w) = Inr (c', w')
     \<Longrightarrow> ShaderDoubleCache_inv c'"
  by (auto simp: ShaderDoubleCache_Inject_def ShaderDoubleCache_Inject_stage_inv split: sum.splits)

lemma ShaderDoubleCache_Get_inv:
  assumes inv: "ShaderDoubleCache_inv c"
    and get: "ShaderDoubleCache_Get P K CodeGenerator ShaderType key setup (c, w) = Inr (r, c', w')"
  shows "ShaderDoubleCache_inv c'"
proof (cases "map_of (shader_map c) key")
  case (Some p)
  with get have "c' = c"
    by (auto simp: ShaderDoubleCache_Get_def split: option.splits)
  with inv show ?thesis by simp
next
  case None
  show ?thesis
  proof (cases "CodeGenerator setup key (dc_separable c)")
    case N: None
    have "ShaderDoubleCache_inv
            (c\<lparr>shader_cache := shader_cache c,
               shader_map := AList.update key None (shader_map c)\<rparr>)"
      using inv by (intro ShaderDoubleCache_inv_step) (auto simp: ShaderDoubleCache_inv_def)
    with get None N show ?thesis by (simp add: ShaderDoubleCache_Get_def)
  next
    case (Some generated)
    let ?src = "code generated"
    let ?new = "OGLShaderStage_new (dc_separable c)"
    obtain cache1 st b where e: "emplace ?src ?new (shader_cache c) = (cache1, st, b)"
      by (cases "emplace ?src ?new (shader_cache c)") auto
    have d1: "distinct (map fst cache1)"
      using emplace_distinct [of "shader_cache c" ?src ?new] inv e
      by (simp add: ShaderDoubleCache_inv_def)
    have k1: "set (map fst (shader_cache c)) \<subseteq> set (map fst cache1)"
      using emplace_keeps_keys [of "shader_cache c" ?src ?new] e by simp
    have h1: "?src \<in> set (map fst cache1)"
      using emplace_has_key [of ?src ?new "shader_cache c"] e by simp
    have step: "ShaderDoubleCache_inv
            (c\<lparr>shader_cache := AList.update ?src created cache1,
               shader_map := AList.update key (Some ?src) (shader_map c)\<rparr>)" for created
      using d1 k1 h1
      by (intro ShaderDoubleCache_inv_step [OF inv]) (auto simp: distinct_update update_key_set)
    have step2: "ShaderDoubleCache_inv
            (c\<lparr>shader_cache := cache1,
               shader_map := AList.update key (Some ?src) (shader_map c)\<rparr>)"
      using d1 k1 h1 by (intro ShaderDoubleCache_inv_step [OF inv]) auto
    from get None Some e step step2 show ?thesis
      by (auto simp: ShaderDoubleCache_Get_def Let_def split: if_splits sum.splits)
  qed
qed

text \<open>C8. The empty caches hold the invariant and every cache operation that returns keeps it:
  \<open>Get\<close> and both \<open>Inject\<close> of the single-level cache keep one stage per config key;
  \<open>Get\<close> and both \<open>Inject\<close> of the double-level cache keep one stage per source text, one
  pointer per key and every pointer on a stage of the second level. Under the invariant a key
  that is present has exactly one node. Two distinct keys injected with the same source text point
  to the same stage.\<close>

theorem cache_operations_keep_one_stage_per_key:
  "ShaderCache_inv (ShaderCache_new sep)
   \<and> ShaderDoubleCache_inv (ShaderDoubleCache_new sep)
   \<and> (ShaderCache_inv sc \<and> cfg \<in> set (map fst (shaders sc))
        \<longrightarrow> length (filter (\<lambda>n. fst n = cfg) (shaders sc)) = 1)
   \<and> (ShaderDoubleCache_inv dc \<and> decomp \<in> set (map fst (shader_cache dc))
        \<longrightarrow> length (filter (\<lambda>n. fst n = decomp) (shader_cache dc)) = 1)
   \<and> (ShaderCache_inv sc \<longrightarrow>
        (\<forall>r sc' w'. ShaderCache_Get P K Gen1 ShaderType cfg (sc, w) = Inr (r, sc', w')
                      \<longrightarrow> ShaderCache_inv sc')
      \<and> (\<forall>sc' w'. ShaderCache_Inject P K cfg program (sc, w) = Inr (sc', w')
                      \<longrightarrow> ShaderCache_inv sc')
      \<and> ShaderCache_inv (ShaderCache_Inject_stage cfg stage sc))
   \<and> (ShaderDoubleCache_inv dc \<longrightarrow>
        (\<forall>r dc' w'. ShaderDoubleCache_Get P K Gen2 ShaderTypeD key stp (dc, w) = Inr (r, dc', w')
                      \<longrightarrow> ShaderDoubleCache_inv dc')
      \<and> (\<forall>dc' w'. ShaderDoubleCache_Inject P K key decomp program (dc, w) = Inr (dc', w')
                      \<longrightarrow> ShaderDoubleCache_inv dc')
      \<and> ShaderDoubleCache_inv (ShaderDoubleCache_Inject_stage key decomp stage dc)
      \<and> (key \<noteq> key2 \<longrightarrow>
           map_of (shader_map (ShaderDoubleCache_Inject_stage key2 decomp stage2
                      (ShaderDoubleCache_Inject_stage key decomp stage dc))) key
           = map_of (shader_map (ShaderDoubleCache_Inject_stage key2 decomp stage2
                      (ShaderDoubleCache_Inject_stage key decomp stage dc))) key2))"
proof -
  have a: "ShaderCache_inv (ShaderCache_new sep)"
    by (simp add: ShaderCache_inv_def ShaderCache_new_def)
  have b: "ShaderDoubleCache_inv (ShaderDoubleCache_new sep)"
    by (simp add: ShaderDoubleCache_inv_def ShaderDoubleCache_new_def)
  have c: "map_of (shader_map (ShaderDoubleCache_Inject_stage key2 decomp stage2
                      (ShaderDoubleCache_Inject_stage key decomp stage dc))) key
           = map_of (shader_map (ShaderDoubleCache_Inject_stage key2 decomp stage2
                      (ShaderDoubleCache_Inject_stage key decomp stage dc))) key2"
    if "key \<noteq> key2"
    using that
    by (simp add: ShaderDoubleCache_Inject_stage_def map_of_update split: prod.splits)
  have d: "\<forall>r sc' w'. ShaderCache_Get P K Gen1 ShaderType cfg (sc, w) = Inr (r, sc', w')
                      \<longrightarrow> ShaderCache_inv sc'" if "ShaderCache_inv sc"
    using that by (auto intro: ShaderCache_Get_inv)
  have e: "\<forall>sc' w'. ShaderCache_Inject P K cfg program (sc, w) = Inr (sc', w')
                      \<longrightarrow> ShaderCache_inv sc'" if "ShaderCache_inv sc"
    using that by (auto intro: ShaderCache_Inject_inv)
  have f: "\<forall>r dc' w'. ShaderDoubleCache_Get P K Gen2 ShaderTypeD key stp (dc, w)
                        = Inr (r, dc', w') \<longrightarrow> ShaderDoubleCache_inv dc'"
    if "ShaderDoubleCache_inv dc"
    using that by (auto intro: ShaderDoubleCache_Get_inv)
  have g: "\<forall>dc' w'. ShaderDoubleCache_Inject P K key decomp program (dc, w) = Inr (dc', w')
                      \<longrightarrow> ShaderDoubleCache_inv dc'" if "ShaderDoubleCache_inv dc"
    using that by (auto intro: ShaderDoubleCache_Inject_inv)
  have h: "length (filter (\<lambda>n. fst n = cfg) (shaders sc)) = 1"
    if "ShaderCache_inv sc \<and> cfg \<in> set (map fst (shaders sc))"
    using that one_node_per_key [of "shaders sc" cfg] by (simp add: ShaderCache_inv_def)
  have i: "length (filter (\<lambda>n. fst n = decomp) (shader_cache dc)) = 1"
    if "ShaderDoubleCache_inv dc \<and> decomp \<in> set (map fst (shader_cache dc))"
    using that one_node_per_key [of "shader_cache dc" decomp]
    by (simp add: ShaderDoubleCache_inv_def)
  show ?thesis
    using a b c d e f g h i ShaderCache_Inject_stage_inv [of sc cfg stage]
      ShaderDoubleCache_Inject_stage_inv [of dc key decomp stage]
    by (intro conjI impI) assumption+
qed

theorem cache_operations_keep_one_stage_per_key_witness:
  "ShaderCache_inv (ShaderCache_new True :: Regs ShaderCache)
   \<and> (case ShaderCache_Get platform_plain constants_plain
             (GenerateFragmentShader generators_plain) GL_FRAGMENT_SHADER [7]
             (ShaderCache_new True, world_start) of
        Inl e \<Rightarrow> False | Inr (r, c', w') \<Rightarrow> ShaderCache_inv c')
   \<and> (case ShaderCache_Inject platform_plain constants_plain [7 :: u32] 5
             (ShaderCache_new True, world_start) of
        Inl e \<Rightarrow> False | Inr (c', w') \<Rightarrow> ShaderCache_inv c')
   \<and> ShaderDoubleCache_inv (ShaderDoubleCache_new True :: (Regs \<times> u32 list) ShaderDoubleCache)
   \<and> (case ShaderDoubleCache_Get platform_plain constants_plain
             (GenerateVertexShader generators_plain) GL_VERTEX_SHADER ([], [1]) setup_one
             (ShaderDoubleCache_new True, world_start) of
        Inl e \<Rightarrow> False | Inr (r, c', w') \<Rightarrow> ShaderDoubleCache_inv c')
   \<and> (case ShaderDoubleCache_Inject platform_plain constants_plain
             (([], [1]) :: Regs \<times> u32 list) ''vs'' 5 (ShaderDoubleCache_new True, world_start) of
        Inl e \<Rightarrow> False | Inr (c', w') \<Rightarrow> ShaderDoubleCache_inv c')
   \<and> (([], [1]) :: Regs \<times> u32 list) \<noteq> ([], [2])
   \<and> map_of (shader_map (ShaderDoubleCache_Inject_stage ([], [2]) ''vs'' (StageProgram 6)
                 (ShaderDoubleCache_Inject_stage ([], [1]) ''vs'' (StageProgram 5)
                    (ShaderDoubleCache_new True :: (Regs \<times> u32 list) ShaderDoubleCache))))
         ([], [1])
       = map_of (shader_map (ShaderDoubleCache_Inject_stage ([], [2]) ''vs'' (StageProgram 6)
                 (ShaderDoubleCache_Inject_stage ([], [1]) ''vs'' (StageProgram 5)
                    (ShaderDoubleCache_new True :: (Regs \<times> u32 list) ShaderDoubleCache))))
         ([], [2])
   \<and> length (filter (\<lambda>n. fst n = [7])
         (shaders \<lparr>sc_separable = True, shaders = [([7 :: u32], StageProgram 3)]\<rparr>)) = 1
   \<and> length (filter (\<lambda>n. fst n = ''vs'')
         (shader_cache \<lparr>dc_separable = True,
                         shader_map = [((([], [1]) :: Regs \<times> u32 list), Some ''vs'')],
                         shader_cache = [(''vs'', StageProgram 3)]\<rparr>)) = 1"
proof -
  let ?sc = "ShaderCache_new True :: Regs ShaderCache"
  let ?dc = "ShaderDoubleCache_new True :: (Regs \<times> u32 list) ShaderDoubleCache"
  note inst = cache_operations_keep_one_stage_per_key [where sep = True and sc = ?sc and dc = ?dc
      and P = platform_plain and K = constants_plain and w = world_start
      and ?Gen1.0 = "GenerateFragmentShader generators_plain" and ShaderType = GL_FRAGMENT_SHADER
      and cfg = "[7]" and program = 5
      and ?Gen2.0 = "GenerateVertexShader generators_plain" and ShaderTypeD = GL_VERTEX_SHADER
      and key = "([], [1])" and stp = setup_one and decomp = "''vs''" and stage = "StageProgram 5"
      and ?key2.0 = "([], [2])" and ?stage2.0 = "StageProgram 6"]
  have a: "ShaderCache_Get platform_plain constants_plain
             (GenerateFragmentShader generators_plain) GL_FRAGMENT_SHADER [7] (?sc, world_start)
           = Inr ((3, Some \<lparr>code = ''fs''\<rparr>),
                  \<lparr>sc_separable = True, shaders = [([7], StageProgram 3)]\<rparr>,
                  \<lparr>trace = [E_CodeGenerator (Some \<lparr>code = ''fs''\<rparr>),
                            E_OGLShader_Create ''fs'' 35632 2, E_OGLProgram_Create True [2] 3,
                            E_Apply 3, E_Apply 0],
                   cur_shader_program = 0, polls = 0\<rparr>)"
    by code_simp
  have b: "ShaderCache_Inject platform_plain constants_plain [7 :: u32] 5 (?sc, world_start)
           = Inr (\<lparr>sc_separable = True, shaders = [([7], StageProgram 5)]\<rparr>,
                  \<lparr>trace = [E_Apply 5, E_Apply 0], cur_shader_program = 0, polls = 0\<rparr>)"
    by code_simp
  have c: "ShaderDoubleCache_Get platform_plain constants_plain
             (GenerateVertexShader generators_plain) GL_VERTEX_SHADER ([], [1]) setup_one
             (?dc, world_start)
           = Inr ((3, Some \<lparr>code = ''vs''\<rparr>),
                  \<lparr>dc_separable = True, shader_map = [(([], [1]), Some ''vs'')],
                   shader_cache = [(''vs'', StageProgram 3)]\<rparr>,
                  \<lparr>trace = [E_CodeGenerator (Some \<lparr>code = ''vs''\<rparr>),
                            E_OGLShader_Create ''vs'' 35633 2, E_OGLProgram_Create True [2] 3],
                   cur_shader_program = 0, polls = 0\<rparr>)"
    by code_simp
  have d: "ShaderDoubleCache_Inject platform_plain constants_plain
             (([], [1]) :: Regs \<times> u32 list) ''vs'' 5 (?dc, world_start)
           = Inr (\<lparr>dc_separable = True, shader_map = [(([], [1]), Some ''vs'')],
                   shader_cache = [(''vs'', StageProgram 5)]\<rparr>,
                  \<lparr>trace = [E_Apply 5, E_Apply 0], cur_shader_program = 0, polls = 0\<rparr>)"
    by code_simp
  have ne: "(([], [1]) :: Regs \<times> u32 list) \<noteq> ([], [2])" by simp
  from inst have i1: "ShaderCache_inv ?sc" and i2: "ShaderDoubleCache_inv ?dc"
    by blast+
  from inst i1 a have a': "ShaderCache_inv \<lparr>sc_separable = True, shaders = [([7 :: u32], StageProgram 3)]\<rparr>"
    by blast
  from inst i1 b have b': "ShaderCache_inv \<lparr>sc_separable = True, shaders = [([7 :: u32], StageProgram 5)]\<rparr>"
    by blast
  from inst i2 c have c': "ShaderDoubleCache_inv
         \<lparr>dc_separable = True, shader_map = [((([], [1]) :: Regs \<times> u32 list), Some ''vs'')],
          shader_cache = [(''vs'', StageProgram 3)]\<rparr>"
    by blast
  from inst i2 d have d': "ShaderDoubleCache_inv
         \<lparr>dc_separable = True, shader_map = [((([], [1]) :: Regs \<times> u32 list), Some ''vs'')],
          shader_cache = [(''vs'', StageProgram 5)]\<rparr>"
    by blast
  from inst i2 ne have e: "map_of (shader_map (ShaderDoubleCache_Inject_stage ([], [2]) ''vs'' (StageProgram 6)
                 (ShaderDoubleCache_Inject_stage ([], [1]) ''vs'' (StageProgram 5) ?dc)))
         ([], [1])
       = map_of (shader_map (ShaderDoubleCache_Inject_stage ([], [2]) ''vs'' (StageProgram 6)
                 (ShaderDoubleCache_Inject_stage ([], [1]) ''vs'' (StageProgram 5) ?dc)))
         ([], [2])"
    by blast
  let ?sc2 = "\<lparr>sc_separable = True, shaders = [([7 :: u32], StageProgram 3)]\<rparr>"
  let ?dc2 = "\<lparr>dc_separable = True,
               shader_map = [((([], [1]) :: Regs \<times> u32 list), Some ''vs'')],
               shader_cache = [(''vs'', StageProgram 3)]\<rparr>"
  note inst2 = cache_operations_keep_one_stage_per_key [where sc = ?sc2 and dc = ?dc2
      and cfg = "[7]" and decomp = "''vs''"]
  have k1: "[7] \<in> set (map fst (shaders ?sc2))" by simp
  have k2: "''vs'' \<in> set (map fst (shader_cache ?dc2))" by simp
  from inst2 a' k1 have f1: "length (filter (\<lambda>n. fst n = [7]) (shaders ?sc2)) = 1"
    by blast
  from inst2 c' k2 have f2: "length (filter (\<lambda>n. fst n = ''vs'') (shader_cache ?dc2)) = 1"
    by blast
  show ?thesis
    using i1 i2 a' b' c' d' ne e f1 f2
    by (simp only: a b c d sum.case prod.case simp_thms)
qed

section \<open>UseProgrammableVertexShader\<close>

lemma ShaderDoubleCache_Get_no_disk:
  assumes "ShaderDoubleCache_Get P K CodeGenerator ShaderType key setup (c, w) = Inr (r, c', w')"
  shows "filter is_disk (trace w') = filter is_disk (trace w)"
  using assms
  by (auto simp: ShaderDoubleCache_Get_def Let_def
      split: option.splits prod.splits if_splits sum.splits
      dest!: Stage_Create_trace [where Q = is_disk])

text \<open>C10. When \<open>Get\<close> of the double-level cache returns, \<open>UseProgrammableVertexShader\<close>
  returns too. With handle 0 it returns false, leaves the vertex handle and vertex hash of the
  current tuple as they are, and calls nothing on the disk cache. It calls the disk cache only
  when the handle is not 0 and \<open>Get\<close> returned a new source; then it saves one Raw and one
  Decompiled entry.\<close>

theorem UseProgrammableVertexShader_saves_only_new:
  assumes "ShaderDoubleCache_Get P K (GenerateVertexShader G) GL_VERTEX_SHADER
             (PicaVSConfig G regs setup) setup (programmable_vertex_shaders I, w)
           = Inr ((handle, res), pvs, w1)"
  shows "\<exists>ok I' w'.
           UseProgrammableVertexShader P K G regs setup (I, w) = Inr (ok, I', w')
         \<and> (handle = 0 \<longrightarrow>
               \<not> ok \<and> vs (current I') = vs (current I)
             \<and> vs_hash (current I') = vs_hash (current I)
             \<and> filter is_disk (trace w') = filter is_disk (trace w))
         \<and> (filter is_disk (trace w') \<noteq> filter is_disk (trace w) \<longrightarrow> handle \<noteq> 0 \<and> res \<noteq> None)
         \<and> (\<forall>r. handle \<noteq> 0 \<and> res = Some r \<longrightarrow>
               ok \<and> filter is_disk (trace w')
                     = filter is_disk (trace w)
                       @ [E_SaveRaw \<lparr>unique_identifier =
                                       GetUniqueIdentifier K regs
                                         (setup_program_code setup @ setup_swizzle_data setup),
                                     program_type = VS, config = regs,
                                     program_code =
                                       setup_program_code setup @ setup_swizzle_data setup\<rparr>,
                          E_SaveDecompiled
                            (GetUniqueIdentifier K regs
                               (setup_program_code setup @ setup_swizzle_data setup))
                            r (g_hw_shader_accurate_mul K)])"
  using assms ShaderDoubleCache_Get_no_disk [OF assms]
  by (cases res) (auto simp: UseProgrammableVertexShader_def Let_def)

theorem UseProgrammableVertexShader_saves_only_new_witness:
  "(case UseProgrammableVertexShader platform_plain constants_plain generators_plain []
           setup_empty (Impl_start True, world_start) of
      Inl e \<Rightarrow> False
    | Inr (ok, I', w') \<Rightarrow>
        \<not> ok \<and> vs (current I') = vs (current (Impl_start True))
      \<and> vs_hash (current I') = vs_hash (current (Impl_start True))
      \<and> filter is_disk (trace w') = filter is_disk (trace world_start))
   \<and> (case UseProgrammableVertexShader platform_plain constants_plain generators_plain []
           setup_one (Impl_start True, world_start) of
      Inl e \<Rightarrow> False
    | Inr (ok, I', w') \<Rightarrow>
        ok \<and> filter is_disk (trace w')
             = filter is_disk (trace world_start)
               @ [E_SaveRaw \<lparr>unique_identifier =
                               GetUniqueIdentifier constants_plain []
                                 (setup_program_code setup_one @ setup_swizzle_data setup_one),
                             program_type = VS, config = [],
                             program_code =
                               setup_program_code setup_one @ setup_swizzle_data setup_one\<rparr>,
                  E_SaveDecompiled
                    (GetUniqueIdentifier constants_plain []
                       (setup_program_code setup_one @ setup_swizzle_data setup_one))
                    \<lparr>code = ''vs''\<rparr> (g_hw_shader_accurate_mul constants_plain)])"
proof -
  have get0:
    "ShaderDoubleCache_Get platform_plain constants_plain (GenerateVertexShader generators_plain)
       GL_VERTEX_SHADER (PicaVSConfig generators_plain [] setup_empty) setup_empty
       (programmable_vertex_shaders (Impl_start True), world_start)
     = Inr ((0, None),
            \<lparr>dc_separable = True, shader_map = [(([], []), None)], shader_cache = []\<rparr>,
            \<lparr>trace = [E_CodeGenerator None], cur_shader_program = 0, polls = 0\<rparr>)"
    by code_simp
  have get1:
    "ShaderDoubleCache_Get platform_plain constants_plain (GenerateVertexShader generators_plain)
       GL_VERTEX_SHADER (PicaVSConfig generators_plain [] setup_one) setup_one
       (programmable_vertex_shaders (Impl_start True), world_start)
     = Inr ((3, Some \<lparr>code = ''vs''\<rparr>),
            \<lparr>dc_separable = True, shader_map = [(([], [5]), Some ''vs'')],
             shader_cache = [(''vs'', StageProgram 3)]\<rparr>,
            \<lparr>trace = [E_CodeGenerator (Some \<lparr>code = ''vs''\<rparr>),
                      E_OGLShader_Create ''vs'' 35633 2, E_OGLProgram_Create True [2] 3],
             cur_shader_program = 0, polls = 0\<rparr>)"
    by code_simp
  have first:
    "case UseProgrammableVertexShader platform_plain constants_plain generators_plain []
           setup_empty (Impl_start True, world_start) of
      Inl e \<Rightarrow> False
    | Inr (ok, I', w') \<Rightarrow>
        \<not> ok \<and> vs (current I') = vs (current (Impl_start True))
      \<and> vs_hash (current I') = vs_hash (current (Impl_start True))
      \<and> filter is_disk (trace w') = filter is_disk (trace world_start)"
    using UseProgrammableVertexShader_saves_only_new [OF get0] by auto
  have three: "(3 :: GLuint) \<noteq> 0" by simp
  have second:
    "case UseProgrammableVertexShader platform_plain constants_plain generators_plain []
           setup_one (Impl_start True, world_start) of
      Inl e \<Rightarrow> False
    | Inr (ok, I', w') \<Rightarrow>
        ok \<and> filter is_disk (trace w')
             = filter is_disk (trace world_start)
               @ [E_SaveRaw \<lparr>unique_identifier =
                               GetUniqueIdentifier constants_plain []
                                 (setup_program_code setup_one @ setup_swizzle_data setup_one),
                             program_type = VS, config = [],
                             program_code =
                               setup_program_code setup_one @ setup_swizzle_data setup_one\<rparr>,
                  E_SaveDecompiled
                    (GetUniqueIdentifier constants_plain []
                       (setup_program_code setup_one @ setup_swizzle_data setup_one))
                    \<lparr>code = ''vs''\<rparr> (g_hw_shader_accurate_mul constants_plain)]"
    using UseProgrammableVertexShader_saves_only_new [OF get1] three by auto
  from first second show ?thesis by (rule conjI)
qed

section \<open>LoadDiskCache\<close>

lemma poll_simps [simp]:
  "fst (poll K w) = stop_loading K (polls w)"
  "trace (snd (poll K w)) = trace w"
  "polls (snd (poll K w)) = Suc (polls w)"
  "cur_shader_program (snd (poll K w)) = cur_shader_program w"
  by (simp_all add: poll_def)

lemma watched_simps [simp]:
  "watched sf (E_callback stage a b) = False"
  "watched sf E_InvalidateAll = False"
  "watched sf E_InvalidatePrecompiled = False"
  "watched sf E_SaveVirtualPrecompiledFile = True"
  "watched sf (E_glCreateProgram h) = False"
  "watched sf (E_glProgramParameteri h) = False"
  "watched sf (E_glProgramBinary h f bytes) = (f \<notin> sf)"
  "watched sf (E_OGLShader_Create src ty h) = False"
  "watched sf (E_OGLProgram_Create sep hs h) = False"
  "watched sf (E_CodeGenerator r) = False"
  "watched sf (E_SaveDecompiled uid pr flag) = False"
  "watched sf (E_SaveDump uid h) = False"
  by (simp_all add: watched_def)

lemma binding_not_watched: "is_binding e \<Longrightarrow> \<not> watched sf e"
  by (cases e) (simp_all add: watched_def)

lemma filter_watched:
  "filter is_serialize (filter (watched sf) es) = filter is_serialize es"
  "filter (unsupported_binary sf) (filter (watched sf) es) = filter (unsupported_binary sf) es"
  by (induction es) (auto simp: watched_def)

lemma report_watched [simp]:
  "filter (watched sf) (trace (report callback stage a b w)) = filter (watched sf) (trace w)"
  by (simp add: report_def)

lemma GeneratePrecompiledProgram_watched:
  "filter (watched sf) (trace (snd (GeneratePrecompiledProgram P dump sf sep w)))
     = filter (watched sf) (trace w)"
  by (simp add: GeneratePrecompiledProgram_def Let_def)

lemma GeneratePrecompiledProgram_unsupported:
  "binary_format dump \<notin> sf \<Longrightarrow> GeneratePrecompiledProgram P dump sf sep w = (0, w)"
  by (simp add: GeneratePrecompiledProgram_def)

text \<open>What the loops and phases leave as it was: the watched calls in the trace, which are
  those of \<open>SaveVirtualPrecompiledFile\<close> and those of \<open>glProgramBinary\<close> with a format
  outside the supported set, the platform capability, and for the rebuild phase the queue of
  indices. A whole run adds one call of \<open>SaveVirtualPrecompiledFile\<close> or nothing.\<close>

lemma ShaderDoubleCache_Inject_watched:
  assumes "ShaderDoubleCache_Inject P K key decomp program (c, w) = Inr (c', w')"
  shows "filter (watched sf) (trace w') = filter (watched sf) (trace w)"
  using assms
  by (auto simp: ShaderDoubleCache_Inject_def split: sum.splits
      dest!: Stage_Inject_quiet [where Q = "watched sf"] dest: binding_not_watched)

lemma ShaderCache_Inject_watched:
  assumes "ShaderCache_Inject P K key program (c, w) = Inr (c', w')"
  shows "filter (watched sf) (trace w') = filter (watched sf) (trace w)"
  using assms
  by (auto simp: ShaderCache_Inject_def split: sum.splits
      dest!: Stage_Inject_quiet [where Q = "watched sf"] dest: binding_not_watched)

lemma Stage_Create_watched:
  assumes "Stage_Create P K stage source type w = Inr (created, w')"
  shows "filter (watched sf) (trace w') = filter (watched sf) (trace w)"
  using Stage_Create_trace [OF assms, of "watched sf"] by (simp add: binding_not_watched)

lemma LoadPrecompiledShader_item_watched:
  assumes "LoadPrecompiledShader_item P K G callback sf raw_cache decompiled_map dump_map i L
           = Inr fl"
    and "fl = Next L' \<or> fl = Return L'"
  shows "filter (watched sf) (trace (lworld L')) = filter (watched sf) (trace (lworld L))
       \<and> separable (impl L') = separable (impl L)
       \<and> precompiled_cache_altered L' = precompiled_cache_altered L"
proof -
  have gp: "filter (watched sf) (trace w1) = filter (watched sf) (trace (lworld L))"
    if "GeneratePrecompiledProgram P dump sf sep (lworld L) = (shader, w1)"
    for dump sep shader w1
    using GeneratePrecompiledProgram_watched [of sf P dump sep "lworld L"] that by simp
  show ?thesis
    using assms
    by (auto simp: LoadPrecompiledShader_item_def Let_def
        split: if_splits option.splits prod.splits sum.splits
        dest!: gp ShaderDoubleCache_Inject_watched [where sf = sf]
          ShaderCache_Inject_watched [where sf = sf])
qed

lemma LoadPrecompiledShader_watched:
  assumes "LoadPrecompiledShader P K G callback sf raw_cache decompiled_map dump_map is L = Inr L'"
  shows "filter (watched sf) (trace (lworld L')) = filter (watched sf) (trace (lworld L))
       \<and> separable (impl L') = separable (impl L)
       \<and> precompiled_cache_altered L' = precompiled_cache_altered L"
  using assms
proof (induction "is" arbitrary: L)
  case Nil
  then show ?case by simp
next
  case (Cons i rest)
  let ?L0 = "L\<lparr>lworld := snd (poll K (lworld L))\<rparr>"
  show ?case
  proof (cases "stop_loading K (polls (lworld L)) \<or> compilation_failed L")
    case True
    with Cons.prems show ?thesis by (auto simp: poll_def)
  next
    case False
    with Cons.prems obtain fl where
      it: "LoadPrecompiledShader_item P K G callback sf raw_cache decompiled_map dump_map i ?L0
             = Inr fl"
      and rest: "(case fl of Return L1 \<Rightarrow> Inr L1
                  | Next L1 \<Rightarrow> LoadPrecompiledShader P K G callback sf raw_cache decompiled_map
                                 dump_map rest L1) = Inr L'"
      by (auto simp: poll_def split: sum.splits)
    show ?thesis
    proof (cases fl)
      case (Next L1)
      with rest have "LoadPrecompiledShader P K G callback sf raw_cache decompiled_map
                                 dump_map rest L1 = Inr L'" by simp
      from Cons.IH [OF this] LoadPrecompiledShader_item_watched [OF it, of L1] Next
      show ?thesis by simp
    next
      case (Return L1)
      with rest have "L' = L1" by simp
      with LoadPrecompiledShader_item_watched [OF it, of L1] Return
      show ?thesis by simp
    qed
  qed
qed

lemma LoadPrecompiledProgram_watched:
  assumes "LoadPrecompiledProgram P K callback sf decompiled_map n ds i L = Inr L'"
  shows "filter (watched sf) (trace (lworld L')) = filter (watched sf) (trace (lworld L))
       \<and> separable (impl L') = separable (impl L)
       \<and> precompiled_cache_altered L' = precompiled_cache_altered L
       \<and> load_raws_index L' = load_raws_index L"
  using assms
proof (induction ds arbitrary: i L)
  case Nil
  then show ?case by simp
next
  case (Cons d rest)
  let ?w0 = "snd (poll K (lworld L))"
  show ?case
  proof (cases "stop_loading K (polls (lworld L))")
    case True
    with Cons.prems show ?thesis by (auto simp: poll_def)
  next
    case False
    with Cons.prems obtain decomp where dec: "map_of decompiled_map (fst d) = Some decomp"
      by (auto simp: poll_def split: option.splits)
    show ?thesis
    proof (cases "sanitize_mul decomp \<noteq> g_hw_shader_accurate_mul K")
      case True
      with Cons.prems False dec
      have "LoadPrecompiledProgram P K callback sf decompiled_map n rest i
              (L\<lparr>lworld := ?w0\<rparr>) = Inr L'"
        by (auto simp: poll_def)
      from Cons.IH [OF this] show ?thesis by simp
    next
      case same: False
      obtain shader w1 where
        gp: "GeneratePrecompiledProgram P (snd d) sf (separable (impl L)) ?w0 = (shader, w1)"
        by (cases "GeneratePrecompiledProgram P (snd d) sf (separable (impl L)) ?w0") auto
      have w1: "filter (watched sf) (trace w1) = filter (watched sf) (trace (lworld L))"
        using GeneratePrecompiledProgram_watched [of sf P "snd d" "separable (impl L)" ?w0] gp
        by simp
      show ?thesis
      proof (cases "shader = 0")
        case True
        with Cons.prems False dec same gp w1 show ?thesis
          by (auto simp: poll_def)
      next
        case nz: False
        with Cons.prems False dec same gp obtain w2 where
          ub: "SetShaderUniformBlockBindings P K shader w1 = Inr w2"
          and rest: "LoadPrecompiledProgram P K callback sf decompiled_map n rest
                 (if callback then i + 1 else i)
                 (L\<lparr>impl := (impl L)\<lparr>program_cache :=
                        fst (emplace (fst d) shader (program_cache (impl L)))\<rparr>,
                     lworld := report callback Decompile (i + 1) n
                                 (SetShaderSamplerBindings P K shader w2)\<rparr>) = Inr L'"
          by (auto simp: poll_def split: sum.splits)
        have "filter (watched sf) (trace w2) = filter (watched sf) (trace w1)"
          using SetShaderUniformBlockBindings_quiet [OF ub, of "watched sf"]
          by (simp add: binding_not_watched)
        with Cons.IH [OF rest] w1 show ?thesis
          by (simp add: SetShaderSamplerBindings_quiet binding_not_watched)
      qed
    qed
  qed
qed

lemma LoadRawSepareble_store_watched:
  assumes "LoadRawSepareble_store callback raw n handle res sanitize L = Inr fl"
    and "fl = Next L' \<or> fl = Return L'"
  shows "filter (watched sf) (trace (lworld L')) = filter (watched sf) (trace (lworld L))
       \<and> separable (impl L') = separable (impl L)
       \<and> load_all_raws L' = load_all_raws L \<and> load_raws_index L' = load_raws_index L"
  using assms
  by (auto simp: LoadRawSepareble_store_def Let_def split: if_splits option.splits)

lemma LoadRawSepareble_item_watched:
  assumes "LoadRawSepareble_item P K G callback raws n i L = Inr fl"
    and "fl = Next L' \<or> fl = Return L'"
  shows "filter (watched sf) (trace (lworld L')) = filter (watched sf) (trace (lworld L))
       \<and> separable (impl L') = separable (impl L)
       \<and> load_all_raws L' = load_all_raws L \<and> load_raws_index L' = load_raws_index L"
  using assms
  by (auto simp: LoadRawSepareble_item_def Let_def
      split: if_splits option.splits prod.splits sum.splits
      dest!: LoadRawSepareble_store_watched [where L' = L' and sf = sf]
        Stage_Create_watched [where sf = sf])

lemma LoadRawSepareble_watched:
  assumes "LoadRawSepareble P K G callback raws n is L = Inr L'"
  shows "filter (watched sf) (trace (lworld L')) = filter (watched sf) (trace (lworld L))
       \<and> separable (impl L') = separable (impl L)
       \<and> load_all_raws L' = load_all_raws L \<and> load_raws_index L' = load_raws_index L"
  using assms
proof (induction "is" arbitrary: L)
  case Nil
  then show ?case by simp
next
  case (Cons i rest)
  let ?L0 = "L\<lparr>lworld := snd (poll K (lworld L))\<rparr>"
  show ?case
  proof (cases "stop_loading K (polls (lworld L)) \<or> compilation_failed L")
    case True
    with Cons.prems show ?thesis by (auto simp: poll_def)
  next
    case False
    with Cons.prems obtain fl where
      it: "LoadRawSepareble_item P K G callback raws n i ?L0 = Inr fl"
      and rest: "(case fl of Return L1 \<Rightarrow> Inr L1
                  | Next L1 \<Rightarrow> LoadRawSepareble P K G callback raws n rest L1) = Inr L'"
      by (auto simp: poll_def split: sum.splits)
    show ?thesis
    proof (cases fl)
      case (Next L1)
      with rest have "LoadRawSepareble P K G callback raws n rest L1 = Inr L'" by simp
      from Cons.IH [OF this] LoadRawSepareble_item_watched [OF it, of L1] Next
      show ?thesis by simp
    next
      case (Return L1)
      with rest have "L' = L1" by simp
      with LoadRawSepareble_item_watched [OF it, of L1] Return
      show ?thesis by simp
    qed
  qed
qed

lemma run_workers_watched:
  assumes "run_workers P K G callback raws n buckets L = Inr L'"
  shows "filter (watched sf) (trace (lworld L')) = filter (watched sf) (trace (lworld L))
       \<and> separable (impl L') = separable (impl L)
       \<and> load_all_raws L' = load_all_raws L \<and> load_raws_index L' = load_raws_index L"
  using assms
proof (induction buckets arbitrary: L)
  case Nil
  then show ?case by simp
next
  case (Cons b rest)
  from Cons.prems obtain L1 where
    one: "LoadRawSepareble P K G callback raws n [fst b..<snd b] L = Inr L1"
    and more: "run_workers P K G callback raws n rest L1 = Inr L'"
    by (auto split: sum.splits)
  from Cons.IH [OF more] LoadRawSepareble_watched [OF one] show ?case by simp
qed

lemma GetSupportedFormats_polls [simp]:
  "GetSupportedFormats P (w\<lparr>polls := n\<rparr>) = GetSupportedFormats P w"
  by (simp add: GetSupportedFormats_def)

lemma LoadDiskCache_precompiled_watched:
  assumes "LoadDiskCache_precompiled P K G callback LoadTransferable LoadPrecompiled (I, w) = Inr fl"
    and "fl = Next L \<or> fl = Return L"
  shows "filter (watched (GetSupportedFormats P w)) (trace (lworld L))
           = filter (watched (GetSupportedFormats P w)) (trace w)
       \<and> separable (impl L) = separable I
       \<and> \<not> precompiled_cache_altered L"
  using assms
  by (auto simp: LoadDiskCache_precompiled_def Let_def poll_def
      split: option.splits prod.splits if_splits sum.splits
      dest!: LoadPrecompiledShader_watched LoadPrecompiledProgram_watched)

lemma LoadDiskCache_rejected_watched:
  "filter (watched sf) (trace (lworld (LoadDiskCache_rejected L)))
     = filter (watched sf) (trace (lworld L))
   \<and> separable (impl (LoadDiskCache_rejected L)) = separable (impl L)"
  by (simp add: LoadDiskCache_rejected_def)

lemma LoadDiskCache_raws_watched:
  assumes "LoadDiskCache_raws P K G callback strict hc raws L = Inr L'"
  shows "separable (impl L') = separable (impl L)"
    and "separable (impl L) \<Longrightarrow>
           filter (watched sf) (trace (lworld L'))
           = filter (watched sf) (trace (lworld L))
             @ (if precompiled_cache_altered L' then [E_SaveVirtualPrecompiledFile] else [])"
    and "\<not> separable (impl L) \<Longrightarrow> L' = L"
proof -
  show "\<not> separable (impl L) \<Longrightarrow> L' = L"
    using assms by (simp add: LoadDiskCache_raws_def)
  let ?n = "if load_all_raws L then length raws else length (load_raws_index L)"
  let ?L1 = "L\<lparr>lworld := report callback Build 0 ?n (lworld L),
               compilation_failed := False, built_shaders := 0\<rparr>"
  have both: "separable (impl L') = separable (impl L)
       \<and> (separable (impl L) \<longrightarrow>
           filter (watched sf) (trace (lworld L'))
           = filter (watched sf) (trace (lworld L))
             @ (if precompiled_cache_altered L' then [E_SaveVirtualPrecompiledFile] else []))"
  proof (cases "separable (impl L)")
    case False
    with assms show ?thesis by (simp add: LoadDiskCache_raws_def)
  next
    case True
    with assms obtain L2 where
      run: "(if \<not> strict
             then run_workers P K G callback raws ?n (worker_ranges hc ?n) ?L1
             else LoadRawSepareble P K G callback raws ?n [0..<?n] ?L1) = Inr L2"
      and fin: "L' = (let L3 = (if compilation_failed L2
                          then L2\<lparr>lworld := emit E_InvalidateAll (lworld L2)\<rparr> else L2)
                in if precompiled_cache_altered L3
                   then L3\<lparr>lworld := emit E_SaveVirtualPrecompiledFile (lworld L3)\<rparr>
                   else L3)"
      by (auto simp: LoadDiskCache_raws_def Let_def split: sum.splits)
    have "filter (watched sf) (trace (lworld L2)) = filter (watched sf) (trace (lworld ?L1))
          \<and> separable (impl L2) = separable (impl ?L1)"
      using run run_workers_watched [of P K G callback raws ?n "worker_ranges hc ?n" ?L1 L2]
        LoadRawSepareble_watched [of P K G callback raws ?n "[0..<?n]" ?L1 L2]
      by (auto split: if_splits)
    then show ?thesis using fin by (auto simp: Let_def)
  qed
  from both show "separable (impl L') = separable (impl L)" by simp
  from both show "separable (impl L) \<Longrightarrow>
           filter (watched sf) (trace (lworld L'))
           = filter (watched sf) (trace (lworld L))
             @ (if precompiled_cache_altered L' then [E_SaveVirtualPrecompiledFile] else [])"
    by simp
qed

lemma LoadDiskCache_watched:
  assumes "LoadDiskCache P K G callback strict_context_required hardware_concurrency
             LoadTransferable LoadPrecompiled (I, w) = Inr L"
  shows "filter (watched (GetSupportedFormats P w)) (trace (lworld L))
         = filter (watched (GetSupportedFormats P w)) (trace w)
           @ (if separable I \<and> precompiled_cache_altered L
              then [E_SaveVirtualPrecompiledFile] else [])"
proof -
  let ?sf = "GetSupportedFormats P w"
  from assms obtain fl where
    pre: "LoadDiskCache_precompiled P K G callback LoadTransferable LoadPrecompiled (I, w) = Inr fl"
    by (auto simp: LoadDiskCache_def split: sum.splits)
  show ?thesis
  proof (cases fl)
    case (Return L0)
    with assms pre have "L = L0" by (simp add: LoadDiskCache_def)
    with LoadDiskCache_precompiled_watched [OF pre, of L0] Return show ?thesis by simp
  next
    case (Next L0)
    let ?raws = "case LoadTransferable of None \<Rightarrow> [] | Some raws \<Rightarrow> raws"
    from assms pre Next have
      raws: "LoadDiskCache_raws P K G callback strict_context_required hardware_concurrency
               ?raws (LoadDiskCache_rejected L0) = Inr L"
      by (simp add: LoadDiskCache_def)
    from LoadDiskCache_precompiled_watched [OF pre, of L0] Next
    have p: "filter (watched ?sf) (trace (lworld L0)) = filter (watched ?sf) (trace w)"
      "separable (impl L0) = separable I"
      by simp_all
    from LoadDiskCache_raws_watched(1) [OF raws]
      LoadDiskCache_raws_watched(2) [OF raws, where sf = ?sf]
      LoadDiskCache_raws_watched(3) [OF raws] p
      LoadDiskCache_rejected_watched [of ?sf L0]
    show ?thesis by auto
  qed
qed

text \<open>An index enters the queue only for an entry that lacks a dump or a decompiled record.\<close>

lemma LoadPrecompiledShader_item_queue:
  assumes "LoadPrecompiledShader_item P K G callback sf raws decompiled_map dump_map i L = Inr fl"
    and "fl = Next L' \<or> fl = Return L'"
  shows "load_raws_index L' = load_raws_index L
       \<or> load_raws_index L' = load_raws_index L @ [i] \<and> i < length raws
         \<and> (map_of dump_map (unique_identifier (raws ! i)) = None
            \<or> map_of decompiled_map (unique_identifier (raws ! i)) = None)"
  using assms
  by (auto simp: LoadPrecompiledShader_item_def Let_def
      split: if_splits option.splits prod.splits sum.splits)

lemma LoadPrecompiledShader_queue:
  assumes "LoadPrecompiledShader P K G callback sf raws decompiled_map dump_map is L = Inr L'"
    and "j \<in> set (load_raws_index L')"
    and "j \<notin> set (load_raws_index L)"
  shows "j < length raws
       \<and> (map_of dump_map (unique_identifier (raws ! j)) = None
          \<or> map_of decompiled_map (unique_identifier (raws ! j)) = None)"
  using assms
proof (induction "is" arbitrary: L)
  case Nil
  then show ?case by simp
next
  case (Cons i rest)
  let ?L0 = "L\<lparr>lworld := snd (poll K (lworld L))\<rparr>"
  show ?case
  proof (cases "stop_loading K (polls (lworld L)) \<or> compilation_failed L")
    case True
    with Cons.prems show ?thesis by (auto simp: poll_def)
  next
    case False
    with Cons.prems obtain fl where
      it: "LoadPrecompiledShader_item P K G callback sf raws decompiled_map dump_map i ?L0
             = Inr fl"
      and rest: "(case fl of Return L1 \<Rightarrow> Inr L1
                  | Next L1 \<Rightarrow> LoadPrecompiledShader P K G callback sf raws decompiled_map
                                 dump_map rest L1) = Inr L'"
      by (auto simp: poll_def split: sum.splits)
    show ?thesis
    proof (cases fl)
      case (Next L1)
      with rest have r: "LoadPrecompiledShader P K G callback sf raws decompiled_map
                                 dump_map rest L1 = Inr L'" by simp
      show ?thesis
      proof (cases "j \<in> set (load_raws_index L1)")
        case True
        with LoadPrecompiledShader_item_queue [OF it, of L1] Next Cons.prems(3)
        show ?thesis by auto
      next
        case False
        from Cons.IH [OF r Cons.prems(2) False] show ?thesis .
      qed
    next
      case (Return L1)
      with rest have "L' = L1" by simp
      with LoadPrecompiledShader_item_queue [OF it, of L1] Return Cons.prems(2,3)
      show ?thesis by auto
    qed
  qed
qed

lemma LoadDiskCache_precompiled_queue:
  assumes "LoadDiskCache_precompiled P K G callback (Some raws) LoadPrecompiled (I, w) = Inr fl"
    and "fl = Next L \<or> fl = Return L"
    and "LoadPrecompiled (separable I) = (decompiled_map, dump_map)"
    and "j \<in> set (load_raws_index L)"
  shows "j < length raws
       \<and> (map_of dump_map (unique_identifier (raws ! j)) = None
          \<or> map_of decompiled_map (unique_identifier (raws ! j)) = None)"
proof -
  let ?L = "\<lparr>impl = I, lworld = w, dumps = [], precompiled_cache_altered = False,
               compilation_failed = False, load_raws_index = [], load_all_raws = False,
               built_shaders = 0\<rparr>"
  show ?thesis
  proof (cases "stop_loading K (polls w)")
    case True
    with assms show ?thesis
      by (auto simp: LoadDiskCache_precompiled_def Let_def poll_def)
  next
    case False
    let ?L0 = "?L\<lparr>lworld := report callback Decompile 0 (length raws) (snd (poll K w)),
                   dumps := dump_map\<rparr>"
    let ?sf = "GetSupportedFormats P (snd (poll K w))"
    from assms False have
      run: "(if separable I
             then LoadPrecompiledShader P K G callback ?sf raws decompiled_map dump_map
                    [0..<length raws] ?L0
             else LoadPrecompiledProgram P K callback ?sf decompiled_map (length dump_map)
                    dump_map 0 ?L0) = Inr L"
      by (auto simp: LoadDiskCache_precompiled_def Let_def poll_def split: sum.splits)
    show ?thesis
    proof (cases "separable I")
      case True
      with run have "LoadPrecompiledShader P K G callback ?sf raws decompiled_map dump_map
                    [0..<length raws] ?L0 = Inr L" by simp
      from LoadPrecompiledShader_queue [OF this assms(4)] show ?thesis by simp
    next
      case False
      with run have "LoadPrecompiledProgram P K callback ?sf decompiled_map (length dump_map)
                    dump_map 0 ?L0 = Inr L" by simp
      from LoadPrecompiledProgram_watched [OF this] assms(4) show ?thesis by simp
    qed
  qed
qed

lemma LoadDiskCache_raws_queue:
  assumes "LoadDiskCache_raws P K G callback strict hc raws L = Inr L'"
  shows "load_raws_index L' = load_raws_index L \<and> load_all_raws L' = load_all_raws L"
proof (cases "separable (impl L)")
  case False
  with assms show ?thesis by (simp add: LoadDiskCache_raws_def)
next
  case True
  let ?n = "if load_all_raws L then length raws else length (load_raws_index L)"
  let ?L1 = "L\<lparr>lworld := report callback Build 0 ?n (lworld L),
               compilation_failed := False, built_shaders := 0\<rparr>"
  from True assms obtain L2 where
    run: "(if \<not> strict
           then run_workers P K G callback raws ?n (worker_ranges hc ?n) ?L1
           else LoadRawSepareble P K G callback raws ?n [0..<?n] ?L1) = Inr L2"
    and fin: "L' = (let L3 = (if compilation_failed L2
                        then L2\<lparr>lworld := emit E_InvalidateAll (lworld L2)\<rparr> else L2)
              in if precompiled_cache_altered L3
                 then L3\<lparr>lworld := emit E_SaveVirtualPrecompiledFile (lworld L3)\<rparr>
                 else L3)"
    by (auto simp: LoadDiskCache_raws_def Let_def split: sum.splits)
  have "load_raws_index L2 = load_raws_index ?L1 \<and> load_all_raws L2 = load_all_raws ?L1"
    using run run_workers_watched [of P K G callback raws ?n "worker_ranges hc ?n" ?L1 L2]
      LoadRawSepareble_watched [of P K G callback raws ?n "[0..<?n]" ?L1 L2]
    by (auto split: if_splits)
  then show ?thesis using fin by (auto simp: Let_def)
qed

subsection \<open>A raw entry with a wrong identifier\<close>

text \<open>C1, as amended. On a separable platform, when the loop of the precompiled phase reaches a Raw
  entry whose stored identifier differs from the hash computed over its registers and program code
  (loading not stopped, no dump failed before), it invalidates the entire persisted store and
  leaves the loop without looking at the entries after it. The failure flag stays clear, so the
  next step does not mark all Raw entries for rebuild: the queue holds the entries queued before
  the corrupted one and no other.\<close>

theorem LoadPrecompiledShader_invalid_hash:
  assumes "\<not> stop_loading K (polls (lworld L))"
    and "\<not> compilation_failed L"
    and "i < length raw_cache"
    and "unique_identifier (raw_cache ! i)
           \<noteq> GetUniqueIdentifier K (config (raw_cache ! i)) (program_code (raw_cache ! i))"
  shows "LoadPrecompiledShader P K G callback supported_formats raw_cache decompiled_map dump_map
           (i # rest) L
         = Inr (L\<lparr>lworld := emit E_InvalidateAll (snd (poll K (lworld L)))\<rparr>)
       \<and> LoadDiskCache_rejected (L\<lparr>lworld := emit E_InvalidateAll (snd (poll K (lworld L)))\<rparr>)
         = L\<lparr>lworld := emit E_InvalidateAll (snd (poll K (lworld L))), load_all_raws := False\<rparr>"
  using assms
  by (simp add: LoadPrecompiledShader_item_def LoadDiskCache_rejected_def Let_def poll_def)

theorem LoadPrecompiledShader_invalid_hash_witness:
  "LoadPrecompiledShader platform_plain constants_plain generators_plain True {1}
     [raw_fs, raw_fs_corrupt, raw_fs2] [] [] [1, 2] (loader_start True)
   = Inr ((loader_start True)
            \<lparr>lworld := emit E_InvalidateAll (snd (poll constants_plain (lworld (loader_start True))))\<rparr>)
   \<and> \<not> load_all_raws (LoadDiskCache_rejected ((loader_start True)
            \<lparr>lworld := emit E_InvalidateAll (snd (poll constants_plain (lworld (loader_start True))))\<rparr>))"
proof -
  have h1: "\<not> stop_loading constants_plain (polls (lworld (loader_start True)))"
    by (simp add: constants_plain_def)
  have h2: "\<not> compilation_failed (loader_start True)"
    by (simp add: loader_start_def)
  have h3: "1 < length [raw_fs, raw_fs_corrupt, raw_fs2]"
    by simp
  have h4: "unique_identifier ([raw_fs, raw_fs_corrupt, raw_fs2] ! 1)
              \<noteq> GetUniqueIdentifier constants_plain (config ([raw_fs, raw_fs_corrupt, raw_fs2] ! 1))
                  (program_code ([raw_fs, raw_fs_corrupt, raw_fs2] ! 1))"
    by (simp add: raw_fs_corrupt_def raw_fs_def GetUniqueIdentifier_def constants_plain_def)
  from LoadPrecompiledShader_invalid_hash [OF h1 h2 h3 h4,
      of platform_plain generators_plain True "{1}" "[]" "[]" "[2]"]
  show ?thesis by simp
qed

text \<open>Three fragment entries with nothing precompiled, the second with a wrong identifier: the
  first entry is queued and rebuilt, the store is invalidated at the second, and the third entry
  is neither examined nor rebuilt.\<close>

theorem corrupted_raw_entry_counterexample:
  "run_outcome (LoadDiskCache platform_plain constants_plain generators_plain True True 1
      (Some [raw_fs, raw_fs_corrupt, raw_fs2]) precompiled_none (Impl_start True, world_start))
   = Inr (True, False, [0],
          [E_callback Decompile 0 3, E_callback Decompile 0 3, E_InvalidateAll,
           E_callback Build 0 1, E_CodeGenerator (Some \<lparr>code = ''fs''\<rparr>),
           E_OGLShader_Create ''fs'' 35632 6, E_OGLProgram_Create True [6] 7,
           E_Apply 7, E_Apply 0, E_SaveDecompiled 1 \<lparr>code = ''fs''\<rparr> False,
           E_SaveDump 1 7, E_callback Build 1 1, E_SaveVirtualPrecompiledFile])"
  by code_simp

subsection \<open>A dump in a format the platform does not list\<close>

text \<open>C2, as amended. A dump whose format tag is not in the supported set is never passed to
  \<open>glProgramBinary\<close>: \<open>GeneratePrecompiledProgram\<close> returns handle 0 and calls nothing, and
  no run of \<open>LoadDiskCache\<close> that returns adds a call of \<open>glProgramBinary\<close> with a format
  outside the set it queried. The loader treats that handle like a dump the platform rejected:
  the loop over the raw entries (separable platform) and the loop over the dumps (other
  platforms) set the failure flag and stop, and the next step invalidates the whole precompiled
  store, clears the dumps and marks every Raw entry for rebuild from source.\<close>

theorem LoadPrecompiledShader_unsupported_format:
  assumes "binary_format dump \<notin> supported_formats"
    and "\<not> stop_loading K (polls (lworld L))"
  shows "GeneratePrecompiledProgram P dump supported_formats sep w = (0, w)
       \<and> (\<not> compilation_failed L \<and> i < length raw_cache
          \<and> unique_identifier (raw_cache ! i)
               = GetUniqueIdentifier K (config (raw_cache ! i)) (program_code (raw_cache ! i))
          \<and> map_of dump_map (unique_identifier (raw_cache ! i)) = Some dump
          \<and> map_of decompiled_map (unique_identifier (raw_cache ! i)) = Some decomp
          \<and> (program_type (raw_cache ! i) = VS
                \<longrightarrow> sanitize_mul decomp = g_hw_shader_accurate_mul K)
          \<longrightarrow> LoadPrecompiledShader P K G callback supported_formats raw_cache decompiled_map
                dump_map (i # rest) L
              = Inr (L\<lparr>compilation_failed := True, lworld := snd (poll K (lworld L))\<rparr>))
       \<and> (map_of decompiled_map uid = Some decomp
          \<and> sanitize_mul decomp = g_hw_shader_accurate_mul K
          \<longrightarrow> LoadPrecompiledProgram P K callback supported_formats decompiled_map n
                ((uid, dump) # others) j L
              = Inr (L\<lparr>compilation_failed := True, lworld := snd (poll K (lworld L))\<rparr>))
       \<and> LoadDiskCache_rejected (L\<lparr>compilation_failed := True, lworld := snd (poll K (lworld L))\<rparr>)
         = L\<lparr>compilation_failed := True,
             impl := (impl L)\<lparr>program_cache := []\<rparr>,
             lworld := emit E_InvalidatePrecompiled (snd (poll K (lworld L))),
             dumps := [],
             precompiled_cache_altered := True,
             load_all_raws := True\<rparr>
       \<and> (LoadDiskCache P K G callback strict_context_required hardware_concurrency
             LoadTransferable LoadPrecompiled (I, w0) = Inr L'
          \<longrightarrow> filter (unsupported_binary (GetSupportedFormats P w0)) (trace (lworld L'))
              = filter (unsupported_binary (GetSupportedFormats P w0)) (trace w0))"
proof -
  have run: "filter (unsupported_binary (GetSupportedFormats P w0)) (trace (lworld L'))
              = filter (unsupported_binary (GetSupportedFormats P w0)) (trace w0)"
    if r: "LoadDiskCache P K G callback strict_context_required hardware_concurrency
             LoadTransferable LoadPrecompiled (I, w0) = Inr L'"
  proof -
    let ?sf = "GetSupportedFormats P w0"
    have "filter (unsupported_binary ?sf) (filter (watched ?sf) (trace (lworld L')))
          = filter (unsupported_binary ?sf) (filter (watched ?sf) (trace w0)
              @ (if separable I \<and> precompiled_cache_altered L'
                 then [E_SaveVirtualPrecompiledFile] else []))"
      using LoadDiskCache_watched [OF r] by (rule arg_cong)
    then have "filter (unsupported_binary ?sf) (trace (lworld L'))
          = filter (unsupported_binary ?sf) (trace w0)
            @ filter (unsupported_binary ?sf) (if separable I \<and> precompiled_cache_altered L'
                                   then [E_SaveVirtualPrecompiledFile] else [])"
      by (simp only: filter_append filter_watched)
    then show ?thesis by simp
  qed
  have loops: "GeneratePrecompiledProgram P dump supported_formats sep w = (0, w)
       \<and> (\<not> compilation_failed L \<and> i < length raw_cache
          \<and> unique_identifier (raw_cache ! i)
               = GetUniqueIdentifier K (config (raw_cache ! i)) (program_code (raw_cache ! i))
          \<and> map_of dump_map (unique_identifier (raw_cache ! i)) = Some dump
          \<and> map_of decompiled_map (unique_identifier (raw_cache ! i)) = Some decomp
          \<and> (program_type (raw_cache ! i) = VS
                \<longrightarrow> sanitize_mul decomp = g_hw_shader_accurate_mul K)
          \<longrightarrow> LoadPrecompiledShader P K G callback supported_formats raw_cache decompiled_map
                dump_map (i # rest) L
              = Inr (L\<lparr>compilation_failed := True, lworld := snd (poll K (lworld L))\<rparr>))
       \<and> (map_of decompiled_map uid = Some decomp
          \<and> sanitize_mul decomp = g_hw_shader_accurate_mul K
          \<longrightarrow> LoadPrecompiledProgram P K callback supported_formats decompiled_map n
                ((uid, dump) # others) j L
              = Inr (L\<lparr>compilation_failed := True, lworld := snd (poll K (lworld L))\<rparr>))
       \<and> LoadDiskCache_rejected (L\<lparr>compilation_failed := True, lworld := snd (poll K (lworld L))\<rparr>)
         = L\<lparr>compilation_failed := True,
             impl := (impl L)\<lparr>program_cache := []\<rparr>,
             lworld := emit E_InvalidatePrecompiled (snd (poll K (lworld L))),
             dumps := [],
             precompiled_cache_altered := True,
             load_all_raws := True\<rparr>"
    using assms
    by (auto simp: LoadPrecompiledShader_item_def LoadDiskCache_rejected_def Let_def poll_def
        GeneratePrecompiledProgram_unsupported)
  from loops run show ?thesis by blast
qed

theorem LoadPrecompiledShader_unsupported_format_witness:
  "GeneratePrecompiledProgram platform_plain (dump_entry 5) {1} True world_start = (0, world_start)
   \<and> LoadPrecompiledShader platform_plain constants_plain generators_plain True {1}
       [raw_fs, raw_fs2]
       [(1, decompiled_entry False), (2, decompiled_entry False)]
       [(1, dump_entry 5), (2, dump_entry 1)] [0, 1] (loader_start True)
     = Inr ((loader_start True)
              \<lparr>compilation_failed := True,
               lworld := snd (poll constants_plain (lworld (loader_start True)))\<rparr>)
   \<and> LoadPrecompiledProgram platform_plain constants_plain True {1}
       [(1, decompiled_entry False), (2, decompiled_entry False)] 2
       [(1, dump_entry 5), (2, dump_entry 1)] 0 (loader_start True)
     = Inr ((loader_start True)
              \<lparr>compilation_failed := True,
               lworld := snd (poll constants_plain (lworld (loader_start True)))\<rparr>)
   \<and> load_all_raws (LoadDiskCache_rejected ((loader_start True)
              \<lparr>compilation_failed := True,
               lworld := snd (poll constants_plain (lworld (loader_start True)))\<rparr>))
   \<and> run_outcome (LoadDiskCache platform_plain constants_plain generators_plain True True 1
        (Some [raw_fs, raw_fs2]) precompiled_old_format (Impl_start True, world_start))
     = Inr (True, True, [],
          [E_callback Decompile 0 2, E_InvalidatePrecompiled,
           E_callback Build 0 2, E_CodeGenerator (Some \<lparr>code = ''fs''\<rparr>),
           E_OGLShader_Create ''fs'' 35632 5, E_OGLProgram_Create True [5] 6,
           E_Apply 6, E_Apply 0, E_SaveDecompiled 1 \<lparr>code = ''fs''\<rparr> False,
           E_SaveDump 1 6, E_callback Build 1 2,
           E_CodeGenerator (Some \<lparr>code = ''fs''\<rparr>),
           E_OGLShader_Create ''fs'' 35632 13, E_OGLProgram_Create True [13] 14,
           E_Apply 14, E_Apply 0, E_SaveDecompiled 2 \<lparr>code = ''fs''\<rparr> False,
           E_SaveDump 2 14, E_callback Build 2 2, E_SaveVirtualPrecompiledFile])
   \<and> filter (unsupported_binary (GetSupportedFormats platform_plain world_start))
         [E_callback Decompile 0 2, E_InvalidatePrecompiled,
           E_callback Build 0 2, E_CodeGenerator (Some \<lparr>code = ''fs''\<rparr>),
           E_OGLShader_Create ''fs'' 35632 5, E_OGLProgram_Create True [5] 6,
           E_Apply 6, E_Apply 0, E_SaveDecompiled 1 \<lparr>code = ''fs''\<rparr> False,
           E_SaveDump 1 6, E_callback Build 1 2,
           E_CodeGenerator (Some \<lparr>code = ''fs''\<rparr>),
           E_OGLShader_Create ''fs'' 35632 13, E_OGLProgram_Create True [13] 14,
           E_Apply 14, E_Apply 0, E_SaveDecompiled 2 \<lparr>code = ''fs''\<rparr> False,
           E_SaveDump 2 14, E_callback Build 2 2, E_SaveVirtualPrecompiledFile]
       = []"
proof -
  let ?tr = "[E_callback Decompile 0 2, E_InvalidatePrecompiled,
           E_callback Build 0 2, E_CodeGenerator (Some \<lparr>code = ''fs''\<rparr>),
           E_OGLShader_Create ''fs'' 35632 5, E_OGLProgram_Create True [5] 6,
           E_Apply 6, E_Apply 0, E_SaveDecompiled 1 \<lparr>code = ''fs''\<rparr> False,
           E_SaveDump 1 6, E_callback Build 1 2,
           E_CodeGenerator (Some \<lparr>code = ''fs''\<rparr>),
           E_OGLShader_Create ''fs'' 35632 13, E_OGLProgram_Create True [13] 14,
           E_Apply 14, E_Apply 0, E_SaveDecompiled 2 \<lparr>code = ''fs''\<rparr> False,
           E_SaveDump 2 14, E_callback Build 2 2, E_SaveVirtualPrecompiledFile]"
  let ?dec = "[(1 :: u64, decompiled_entry False), (2, decompiled_entry False)]"
  let ?dmp = "[(1 :: u64, dump_entry 5), (2, dump_entry 1)]"
  have h1: "\<not> stop_loading constants_plain (polls (lworld (loader_start True)))"
    by (simp add: constants_plain_def)
  have h2: "\<not> compilation_failed (loader_start True)"
    by (simp add: loader_start_def)
  have h3: "0 < length [raw_fs, raw_fs2]"
    by simp
  have h4: "unique_identifier ([raw_fs, raw_fs2] ! 0)
              = GetUniqueIdentifier constants_plain (config ([raw_fs, raw_fs2] ! 0))
                  (program_code ([raw_fs, raw_fs2] ! 0))"
    by (simp add: raw_fs_def GetUniqueIdentifier_def constants_plain_def)
  have h5: "map_of ?dmp (unique_identifier ([raw_fs, raw_fs2] ! 0)) = Some (dump_entry 5)"
    by (simp add: raw_fs_def)
  have h6: "map_of ?dec (unique_identifier ([raw_fs, raw_fs2] ! 0)) = Some (decompiled_entry False)"
    by (simp add: raw_fs_def)
  have h7: "program_type ([raw_fs, raw_fs2] ! 0) = VS
              \<longrightarrow> sanitize_mul (decompiled_entry False) = g_hw_shader_accurate_mul constants_plain"
    by (simp add: raw_fs_def)
  have h8: "binary_format (dump_entry 5) \<notin> {1}"
    by (simp add: dump_entry_def)
  have h9: "map_of ?dec 1 = Some (decompiled_entry False)"
    by simp
  have h10: "sanitize_mul (decompiled_entry False) = g_hw_shader_accurate_mul constants_plain"
    by (simp add: decompiled_entry_def constants_plain_def)
  note inst = LoadPrecompiledShader_unsupported_format [OF h8 h1,
      where P = platform_plain and sep = True and w = world_start
        and raw_cache = "[raw_fs, raw_fs2]" and i = 0 and dump_map = ?dmp
        and decompiled_map = ?dec and decomp = "decompiled_entry False"
        and G = generators_plain and callback = True and rest = "[1]"
        and uid = 1 and n = 2 and others = "[(2, dump_entry 1)]" and j = 0
        and strict_context_required = True and hardware_concurrency = 1
        and LoadTransferable = "Some [raw_fs, raw_fs2]" and LoadPrecompiled = precompiled_old_format
        and I = "Impl_start True" and ?w0.0 = world_start]
  from inst have a: "GeneratePrecompiledProgram platform_plain (dump_entry 5) {1} True world_start
                       = (0, world_start)"
    by (rule conjunct1)
  from inst h2 h3 h4 h5 h6 h7
  have b: "LoadPrecompiledShader platform_plain constants_plain generators_plain True {1}
       [raw_fs, raw_fs2] ?dec ?dmp [0, 1] (loader_start True)
     = Inr ((loader_start True)
              \<lparr>compilation_failed := True,
               lworld := snd (poll constants_plain (lworld (loader_start True)))\<rparr>)"
    by blast
  from inst h9 h10
  have c: "LoadPrecompiledProgram platform_plain constants_plain True {1} ?dec 2 ?dmp 0
             (loader_start True)
     = Inr ((loader_start True)
              \<lparr>compilation_failed := True,
               lworld := snd (poll constants_plain (lworld (loader_start True)))\<rparr>)"
    by blast
  from inst
  have d: "load_all_raws (LoadDiskCache_rejected ((loader_start True)
              \<lparr>compilation_failed := True,
               lworld := snd (poll constants_plain (lworld (loader_start True)))\<rparr>))"
    by simp
  have e: "run_outcome (LoadDiskCache platform_plain constants_plain generators_plain True True 1
        (Some [raw_fs, raw_fs2]) precompiled_old_format (Impl_start True, world_start))
     = Inr (True, True, [], ?tr)"
    by code_simp
  then obtain L where
    l: "LoadDiskCache platform_plain constants_plain generators_plain True True 1
        (Some [raw_fs, raw_fs2]) precompiled_old_format (Impl_start True, world_start) = Inr L"
    and o: "outcome L = (True, True, [], ?tr)"
    by (auto simp: run_outcome_def split: sum.splits)
  from inst [where L' = L] l o
  have f: "filter (unsupported_binary (GetSupportedFormats platform_plain world_start)) ?tr = []"
    by (simp add: outcome_def world_start_def)
  from a b c d e f show ?thesis by (intro conjI)
qed

text \<open>Two fragment entries, each with a decompiled record and a dump; the first dump has format 5,
  the platform lists format 1 only. The precompiled store is invalidated and both entries are
  rebuilt from source; the dump of the second entry, in a listed format, is never loaded.\<close>

theorem unsupported_format_counterexample:
  "run_outcome (LoadDiskCache platform_plain constants_plain generators_plain True True 1
      (Some [raw_fs, raw_fs2]) precompiled_old_format (Impl_start True, world_start))
   = Inr (True, True, [],
          [E_callback Decompile 0 2, E_InvalidatePrecompiled,
           E_callback Build 0 2, E_CodeGenerator (Some \<lparr>code = ''fs''\<rparr>),
           E_OGLShader_Create ''fs'' 35632 5, E_OGLProgram_Create True [5] 6,
           E_Apply 6, E_Apply 0, E_SaveDecompiled 1 \<lparr>code = ''fs''\<rparr> False,
           E_SaveDump 1 6, E_callback Build 1 2,
           E_CodeGenerator (Some \<lparr>code = ''fs''\<rparr>),
           E_OGLShader_Create ''fs'' 35632 13, E_OGLProgram_Create True [13] 14,
           E_Apply 14, E_Apply 0, E_SaveDecompiled 2 \<lparr>code = ''fs''\<rparr> False,
           E_SaveDump 2 14, E_callback Build 2 2,
           E_SaveVirtualPrecompiledFile])"
  by code_simp

subsection \<open>A vertex entry written with the other sanitization setting\<close>

text \<open>C3, as amended. During warm-up, a vertex-stage entry that has a dump and a decompiled record
  whose sanitization flag differs from the active mode is skipped: the loop goes on to the next
  entry with nothing changed but the count of reads of the stop flag, so the store is not
  invalidated, the index is not queued and no progress is reported. In every run of
  \<open>LoadDiskCache\<close> that returns, each queued index is of an entry that lacks a dump or a
  decompiled record.\<close>

theorem LoadPrecompiledShader_sanitize_mismatch:
  "(\<not> stop_loading K (polls (lworld L0)) \<and> \<not> compilation_failed L0 \<and> i < length raws
    \<and> unique_identifier (raws ! i)
        = GetUniqueIdentifier K (config (raws ! i)) (program_code (raws ! i))
    \<and> map_of dump_map (unique_identifier (raws ! i)) = Some dump
    \<and> map_of decompiled_map (unique_identifier (raws ! i)) = Some decomp
    \<and> program_type (raws ! i) = VS
    \<and> sanitize_mul decomp \<noteq> g_hw_shader_accurate_mul K
    \<longrightarrow> LoadPrecompiledShader P K G callback supported_formats raws decompiled_map dump_map
          (i # rest) L0
        = LoadPrecompiledShader P K G callback supported_formats raws decompiled_map dump_map
            rest (L0\<lparr>lworld := snd (poll K (lworld L0))\<rparr>))
   \<and> (LoadDiskCache P K G callback strict_context_required hardware_concurrency (Some raws)
         LoadPrecompiled (I, w) = Inr L
      \<and> LoadPrecompiled (separable I) = (decompiled_map, dump_map)
      \<and> j \<in> set (load_raws_index L)
    \<longrightarrow> j < length raws
        \<and> (map_of dump_map (unique_identifier (raws ! j)) = None
           \<or> map_of decompiled_map (unique_identifier (raws ! j)) = None))"
proof (intro conjI impI)
  assume "\<not> stop_loading K (polls (lworld L0)) \<and> \<not> compilation_failed L0 \<and> i < length raws
    \<and> unique_identifier (raws ! i)
        = GetUniqueIdentifier K (config (raws ! i)) (program_code (raws ! i))
    \<and> map_of dump_map (unique_identifier (raws ! i)) = Some dump
    \<and> map_of decompiled_map (unique_identifier (raws ! i)) = Some decomp
    \<and> program_type (raws ! i) = VS
    \<and> sanitize_mul decomp \<noteq> g_hw_shader_accurate_mul K"
  then show "LoadPrecompiledShader P K G callback supported_formats raws decompiled_map dump_map
          (i # rest) L0
        = LoadPrecompiledShader P K G callback supported_formats raws decompiled_map dump_map
            rest (L0\<lparr>lworld := snd (poll K (lworld L0))\<rparr>)"
    by (elim conjE) (simp add: LoadPrecompiledShader_item_def Let_def poll_def)
next
  assume a: "LoadDiskCache P K G callback strict_context_required hardware_concurrency (Some raws)
         LoadPrecompiled (I, w) = Inr L
      \<and> LoadPrecompiled (separable I) = (decompiled_map, dump_map)
      \<and> j \<in> set (load_raws_index L)"
  then obtain fl where
    pre: "LoadDiskCache_precompiled P K G callback (Some raws) LoadPrecompiled (I, w) = Inr fl"
    by (auto simp: LoadDiskCache_def split: sum.splits)
  have "j < length raws
        \<and> (map_of dump_map (unique_identifier (raws ! j)) = None
           \<or> map_of decompiled_map (unique_identifier (raws ! j)) = None)"
  proof (cases fl)
    case (Return L1)
    with a pre have "L = L1" by (simp add: LoadDiskCache_def)
    with LoadDiskCache_precompiled_queue [OF pre, of L1 decompiled_map dump_map j] Return a
    show ?thesis by simp
  next
    case (Next L1)
    with a pre have
      "LoadDiskCache_raws P K G callback strict_context_required hardware_concurrency raws
         (LoadDiskCache_rejected L1) = Inr L"
      by (simp add: LoadDiskCache_def)
    from LoadDiskCache_raws_queue [OF this]
    have "load_raws_index L = load_raws_index L1"
      by (simp add: LoadDiskCache_rejected_def split: if_splits)
    with LoadDiskCache_precompiled_queue [OF pre, of L1 decompiled_map dump_map j] Next a
    show ?thesis by simp
  qed
  then show "j < length raws" 
    and "map_of dump_map (unique_identifier (raws ! j)) = None
           \<or> map_of decompiled_map (unique_identifier (raws ! j)) = None"
    by simp_all
qed

theorem LoadPrecompiledShader_sanitize_mismatch_witness:
  "LoadPrecompiledShader platform_plain constants_plain generators_plain True {1}
     [raw_vs] [(2, decompiled_entry True)] [(2, dump_entry 1)] [0] (loader_start True)
   = Inr ((loader_start True)\<lparr>lworld := snd (poll constants_plain (lworld (loader_start True)))\<rparr>)
   \<and> run_outcome (LoadDiskCache platform_plain constants_plain generators_plain True True 1
        (Some [raw_vs]) precompiled_none (Impl_start True, world_start))
     = Inr (True, False, [0],
          [E_callback Decompile 0 1, E_callback Decompile 0 1, E_callback Build 0 1,
           E_CodeGenerator (Some \<lparr>code = ''vs''\<rparr>), E_OGLShader_Create ''vs'' 35633 5,
           E_OGLProgram_Create True [5] 6, E_SaveDecompiled 2 \<lparr>code = ''vs''\<rparr> False,
           E_SaveDump 2 6, E_callback Build 1 1, E_SaveVirtualPrecompiledFile])
   \<and> (map_of ([] :: (u64 \<times> ShaderDiskCacheDump) list) (unique_identifier ([raw_vs] ! 0)) = None
      \<or> map_of ([] :: (u64 \<times> ShaderDiskCacheDecompiled) list) (unique_identifier ([raw_vs] ! 0))
          = None)"
proof -
  let ?tr = "[E_callback Decompile 0 1, E_callback Decompile 0 1, E_callback Build 0 1,
           E_CodeGenerator (Some \<lparr>code = ''vs''\<rparr>), E_OGLShader_Create ''vs'' 35633 5,
           E_OGLProgram_Create True [5] 6, E_SaveDecompiled 2 \<lparr>code = ''vs''\<rparr> False,
           E_SaveDump 2 6, E_callback Build 1 1, E_SaveVirtualPrecompiledFile]"
  have h1: "\<not> stop_loading constants_plain (polls (lworld (loader_start True)))"
    by (simp add: constants_plain_def)
  have h2: "\<not> compilation_failed (loader_start True)"
    by (simp add: loader_start_def)
  have h3: "0 < length [raw_vs]"
    by simp
  have h4: "unique_identifier ([raw_vs] ! 0)
              = GetUniqueIdentifier constants_plain (config ([raw_vs] ! 0))
                  (program_code ([raw_vs] ! 0))"
    by (simp add: raw_vs_def GetUniqueIdentifier_def constants_plain_def)
  have h5: "map_of [(2 :: u64, dump_entry 1)] (unique_identifier ([raw_vs] ! 0))
              = Some (dump_entry 1)"
    by (simp add: raw_vs_def)
  have h6: "map_of [(2 :: u64, decompiled_entry True)] (unique_identifier ([raw_vs] ! 0))
              = Some (decompiled_entry True)"
    by (simp add: raw_vs_def)
  have h7: "program_type ([raw_vs] ! 0) = VS"
    by (simp add: raw_vs_def)
  have h8: "sanitize_mul (decompiled_entry True) \<noteq> g_hw_shader_accurate_mul constants_plain"
    by (simp add: decompiled_entry_def constants_plain_def)
  from h1 h2 h3 h4 h5 h6 h7 h8
    LoadPrecompiledShader_sanitize_mismatch [where K = constants_plain
      and ?L0.0 = "loader_start True" and i = 0 and raws = "[raw_vs]"
      and dump_map = "[(2, dump_entry 1)]" and decompiled_map = "[(2, decompiled_entry True)]"
      and dump = "dump_entry 1" and decomp = "decompiled_entry True"
      and P = platform_plain and G = generators_plain and callback = True
      and supported_formats = "{1}" and rest = "[]", THEN conjunct1]
  have first: "LoadPrecompiledShader platform_plain constants_plain generators_plain True {1}
     [raw_vs] [(2, decompiled_entry True)] [(2, dump_entry 1)] [0] (loader_start True)
   = Inr ((loader_start True)\<lparr>lworld := snd (poll constants_plain (lworld (loader_start True)))\<rparr>)"
    by simp
  have a: "run_outcome (LoadDiskCache platform_plain constants_plain generators_plain True True 1
      (Some [raw_vs]) precompiled_none (Impl_start True, world_start))
   = Inr (True, False, [0], ?tr)"
    by code_simp
  then obtain L where
    l: "LoadDiskCache platform_plain constants_plain generators_plain True True 1
      (Some [raw_vs]) precompiled_none (Impl_start True, world_start) = Inr L"
    and o: "outcome L = (True, False, [0], ?tr)"
    by (auto simp: run_outcome_def split: sum.splits)
  have lp: "precompiled_none (separable (Impl_start True :: (Regs \<times> u32 list, Regs) Impl))
              = ([], [])"
    by (simp add: precompiled_none_def)
  have j: "0 \<in> set (load_raws_index L)"
    using o by (simp add: outcome_def)
  from l lp j
    LoadPrecompiledShader_sanitize_mismatch [where K = constants_plain
      and P = platform_plain and G = generators_plain and callback = True
      and strict_context_required = True and hardware_concurrency = 1
      and raws = "[raw_vs]" and LoadPrecompiled = precompiled_none
      and I = "Impl_start True" and w = world_start and L = L
      and decompiled_map = "[]" and dump_map = "[]" and j = 0, THEN conjunct2]
  have second: "map_of ([] :: (u64 \<times> ShaderDiskCacheDump) list) (unique_identifier ([raw_vs] ! 0)) = None
      \<or> map_of ([] :: (u64 \<times> ShaderDiskCacheDecompiled) list) (unique_identifier ([raw_vs] ! 0))
          = None"
    by simp
  from first a second show ?thesis by (intro conjI)
qed

text \<open>One vertex entry with a dump and a decompiled record of the other mode: no index is queued
  and nothing is rebuilt.\<close>

theorem sanitize_mismatch_counterexample:
  "run_outcome (LoadDiskCache platform_plain constants_plain generators_plain True True 1
      (Some [raw_vs]) precompiled_other_mode (Impl_start True, world_start))
   = Inr (False, False, [], [E_callback Decompile 0 1, E_callback Build 0 0])"
  by code_simp

subsection \<open>Writing the precompiled store back\<close>




end
